theory Spec2Isabelle
  imports Main
begin

section \<open>Strings of the runtime\<close>

text \<open>
  A string of the program is a sequence of UTF-16 code units; a code unit is a natural
  number below 65536. \<open>ascii\<close> turns a literal of this theory into such a sequence.
  Keywords of the source that are not ASCII are written out as their code units.
\<close>

type_synonym jsstring = "nat list"

definition ascii :: "string \<Rightarrow> jsstring" where
  "ascii s = map of_char s"

text \<open>
  \<open>isWhiteSpace\<close> is the set matched by the regular-expression class \<open>\s\<close> and
  stripped by \<open>String.prototype.trim\<close>: the WhiteSpace and LineTerminator code points.
\<close>

definition isWhiteSpace :: "nat \<Rightarrow> bool" where
  "isWhiteSpace c \<longleftrightarrow>
     c = 9 \<or> c = 10 \<or> c = 11 \<or> c = 12 \<or> c = 13 \<or> c = 32 \<or> c = 160 \<or> c = 5760 \<or>
     (8192 \<le> c \<and> c \<le> 8202) \<or> c = 8232 \<or> c = 8233 \<or> c = 8239 \<or> c = 8287 \<or>
     c = 12288 \<or> c = 65279"

text \<open>The class \<open>\w\<close>: \<open>[A-Za-z0-9_]\<close>.\<close>

definition isWordChar :: "nat \<Rightarrow> bool" where
  "isWordChar c \<longleftrightarrow>
     (48 \<le> c \<and> c \<le> 57) \<or> (65 \<le> c \<and> c \<le> 90) \<or> c = 95 \<or> (97 \<le> c \<and> c \<le> 122)"

definition trim :: "jsstring \<Rightarrow> jsstring" where
  "trim s = rev (dropWhile isWhiteSpace (rev (dropWhile isWhiteSpace s)))"

fun startsWith :: "jsstring \<Rightarrow> jsstring \<Rightarrow> bool" where
  "startsWith s [] = True"
| "startsWith [] (k # ks) = False"
| "startsWith (c # cs) (k # ks) = (c = k \<and> startsWith cs ks)"

text \<open>\<open>s.includes(kw)\<close>: \<open>kw\<close> occurs in \<open>s\<close> as a run of code units.\<close>

fun str_includes :: "jsstring \<Rightarrow> jsstring \<Rightarrow> bool" where
  "str_includes [] kw = (kw = [])"
| "str_includes (c # cs) kw = (startsWith (c # cs) kw \<or> str_includes cs kw)"

text \<open>
  \<open>String.prototype.toLowerCase\<close> follows the Unicode case tables of the runtime.
  The functions of the program that call it take it as the argument \<open>lower\<close>, so
  that what is proved of them holds whatever those tables are. \<open>toLowerCaseAscii\<close> is
  the conversion on Basic Latin, which is all of it on a text of ASCII code units; it is
  used to evaluate the program on such texts.
\<close>

definition toLowerCaseAscii :: "jsstring \<Rightarrow> jsstring" where
  "toLowerCaseAscii s = map (\<lambda>c. if 65 \<le> c \<and> c \<le> 90 then c + 32 else c) s"

section \<open>Prompt analyzer (src/prompt-analyzer.ts)\<close>

datatype TaskComplexity = simple | medium | complex

datatype TaskType =
  question | explanation | code_generation | refactoring | debugging | architecture | review

datatype GlmModel = glm_4_7 | glm_4_5_air

datatype ThinkingEffort = low | medium_effort | high

text \<open>
  The field \<open>reasoning\<close> of the source is a text that interpolates the tier, the score,
  the category and three counts; the model keeps the four numbers it prints.
\<close>

record PromptAnalysis =
  complexity :: TaskComplexity
  taskType :: TaskType
  suggestedModel :: GlmModel
  suggestedThinkingEffort :: ThinkingEffort
  suggestedMaxThinkingTokens :: nat
  reasoningScore :: int
  reasoningWords :: nat
  reasoningLines :: nat
  reasoningCodeBlocks :: nat

definition COMPLEX_KEYWORDS :: "jsstring list" where
  "COMPLEX_KEYWORDS =
    [ascii ''refactor'', ascii ''architecture'', ascii ''design'', ascii ''implement'',
     ascii ''build'', ascii ''create system'', ascii ''optimize'', ascii ''performance'',
     ascii ''security'', ascii ''algorithm'',
     [35079, 38609],
     [12450, 12540, 12461, 12486, 12463, 12481, 12515],
     [47532, 54057, 53664, 47553],
     [50500, 53412, 53581, 52376],
     [49444, 44228],
     [44396, 54788]]"

definition SIMPLE_KEYWORDS :: "jsstring list" where
  "SIMPLE_KEYWORDS =
    [ascii ''what is'', ascii ''how to'', ascii ''explain'', ascii ''show me'', ascii ''list'',
     ascii ''find'', ascii ''search'', ascii ''read'', ascii ''view'', ascii ''display'',
     [47924, 50631],
     [50612, 46523, 44172],
     [49444, 47749],
     [48372, 50668]]"

text \<open>
  \<open>TASK_TYPE_KEYWORDS\<close> as \<open>Object.entries\<close> lists it: the keys in the order in which
  the object literal writes them.
\<close>

definition TASK_TYPE_KEYWORDS :: "(TaskType \<times> jsstring list) list" where
  "TASK_TYPE_KEYWORDS =
    [(question, [ascii ''what'', ascii ''why'', ascii ''how'', ascii ''when'', ascii ''where'',
                 [47924, 50631], [50780], [50612, 46523, 44172]]),
     (explanation, [ascii ''explain'', ascii ''describe'', ascii ''tell me about'',
                    [49444, 47749], [50508, 47140]]),
     (code_generation, [ascii ''create'', ascii ''generate'', ascii ''write'', ascii ''implement'',
                        ascii ''add'', [49373, 49457], [51089, 49457], [52628, 44032]]),
     (refactoring, [ascii ''refactor'', ascii ''improve'', ascii ''optimize'', ascii ''clean up'',
                    [47532, 54057, 53664, 47553], [44060, 49440], [52572, 51201, 54868]]),
     (debugging, [ascii ''fix'', ascii ''bug'', ascii ''error'', ascii ''debug'', ascii ''issue'',
                  ascii ''problem'', [49688, 51221], [48260, 44536], [50640, 47084]]),
     (architecture, [ascii ''architecture'', ascii ''design'', ascii ''structure'',
                     ascii ''pattern'', [50500, 53412, 53581, 52376], [49444, 44228],
                     [44396, 51312]]),
     (review, [ascii ''review'', ascii ''check'', ascii ''analyze'', ascii ''audit'',
               [44160, 53664], [48516, 49437], [54869, 51064]])]"

text \<open>The number of keywords of a list that occur in the lowered text.\<close>

definition keywordHits :: "jsstring \<Rightarrow> jsstring list \<Rightarrow> nat" where
  "keywordHits lowerText keywords = length (filter (\<lambda>kw. str_includes lowerText kw) keywords)"

subsection \<open>Counting lines, words, code blocks and file paths\<close>

text \<open>\<open>promptText.split("\n").length\<close>: one more than the number of line feeds.\<close>

definition lineCountOf :: "jsstring \<Rightarrow> nat" where
  "lineCountOf s = Suc (length (filter (\<lambda>c. c = 10) s))"

text \<open>
  \<open>promptText.split(/\s+/).length\<close>: the separator matches every maximal run of white
  space, and the pieces are one more than the runs (a run at either end of the text leaves
  an empty piece there, which is counted).
\<close>

fun whiteSpaceRuns :: "bool \<Rightarrow> jsstring \<Rightarrow> nat" where
  "whiteSpaceRuns inRun [] = 0"
| "whiteSpaceRuns inRun (c # cs) =
     (if isWhiteSpace c then (if inRun then 0 else 1) + whiteSpaceRuns True cs
      else whiteSpaceRuns False cs)"

definition wordCountOf :: "jsstring \<Rightarrow> nat" where
  "wordCountOf s = Suc (whiteSpaceRuns False s)"

text \<open>
  \<open>CODE_BLOCK_PATTERN = /```[\s\S]*?```/g\<close>. \<open>afterFence s\<close> is what follows the first
  run of three backticks of \<open>s\<close>. A match opens at the first fence and, the star being
  lazy, closes at the first fence after it; the search goes on behind the match. An opening
  fence that no fence follows matches nothing, and neither does anything behind it.
\<close>

fun afterFence :: "jsstring \<Rightarrow> jsstring option" where
  "afterFence (a # b # c # r) =
     (if a = 96 \<and> b = 96 \<and> c = 96 then Some r else afterFence (b # c # r))"
| "afterFence s = None"

lemma afterFence_shorter: "afterFence s = Some r \<Longrightarrow> length r < length s"
  by (induction s arbitrary: r rule: afterFence.induct) (auto split: if_splits)

function codeBlockCount :: "jsstring \<Rightarrow> nat" where
  "codeBlockCount s =
     (case afterFence s of
        None \<Rightarrow> 0
      | Some r \<Rightarrow> (case afterFence r of None \<Rightarrow> 0 | Some r' \<Rightarrow> Suc (codeBlockCount r')))"
  by pat_completeness auto
termination
proof (relation "measure length")
  show "wf (measure length)" by simp
next
  fix s r r' :: jsstring
  assume "afterFence s = Some r" and "afterFence r = Some r'"
  then have "length r' < length r" and "length r < length s"
    by (auto dest: afterFence_shorter)
  then show "(r', s) \<in> measure length" by simp
qed

text \<open>
  \<open>FILE_PATH_PATTERN = /(?:\/[\w-]+)+\.[\w]+/g\<close>. A match at the head of \<open>s\<close> is one
  or more segments (a slash and a non-empty run of word characters or hyphens), a dot, and a
  non-empty run of word characters. Every run is greedy, and none can give a character back
  to what follows it (a slash and a dot are outside the segment class), so the match at a
  position is unique; \<open>filePathAt s\<close> is what remains behind it.
\<close>

definition isSegmentChar :: "nat \<Rightarrow> bool" where
  "isSegmentChar c \<longleftrightarrow> isWordChar c \<or> c = 45"

function filePathAt :: "jsstring \<Rightarrow> jsstring option" where
  "filePathAt s =
     (case s of
        [] \<Rightarrow> None
      | c # r \<Rightarrow>
          if c \<noteq> 47 \<or> takeWhile isSegmentChar r = [] then None
          else (case dropWhile isSegmentChar r of
                  [] \<Rightarrow> None
                | d # r' \<Rightarrow>
                    if d = 47 then filePathAt (d # r')
                    else if d = 46 \<and> takeWhile isWordChar r' \<noteq> []
                      then Some (dropWhile isWordChar r')
                    else None))"
  by pat_completeness auto
termination
proof (relation "measure length")
  show "wf (measure length)" by simp
next
  fix s :: jsstring and c r d r'
  assume "s = c # r" and "dropWhile isSegmentChar r = d # r'"
  moreover have "length (dropWhile isSegmentChar r) \<le> length r"
    by (rule length_dropWhile_le)
  ultimately show "(d # r', s) \<in> measure length" by simp
qed

declare filePathAt.simps [simp del]

lemma filePathAt_shorter: "filePathAt s = Some r \<Longrightarrow> length r < length s"
proof (induction s arbitrary: r rule: filePathAt.induct)
  case (1 s)
  show ?case
  proof (cases s)
    case Nil
    with "1.prems" show ?thesis by (simp add: filePathAt.simps)
  next
    case (Cons c t)
    note s = Cons
    have le: "length (dropWhile isSegmentChar t) \<le> length t"
      by (rule length_dropWhile_le)
    show ?thesis
    proof (cases "dropWhile isSegmentChar t")
      case Nil
      from "1.prems" Nil have False
        unfolding s filePathAt.simps [of "c # t"]
        by (simp split: if_splits del: dropWhile_eq_Nil_conv)
      then show ?thesis ..
    next
      case (Cons d t')
      note dw = Cons
      from "1.prems" have ok: "c = 47" "takeWhile isSegmentChar t \<noteq> []"
        unfolding s filePathAt.simps [of "c # t"] by (auto split: if_splits)
      show ?thesis
      proof (cases "d = 47")
        case True
        with "1.prems" ok dw have "filePathAt (d # t') = Some r"
          unfolding s filePathAt.simps [of "c # t"] by simp
        with "1.IH" [OF s _ dw True] ok have "length r < length (d # t')" by simp
        with le dw s show ?thesis by simp
      next
        case False
        with "1.prems" ok dw have r: "r = dropWhile isWordChar t'"
          unfolding s filePathAt.simps [of "c # t"] by (auto split: if_splits)
        have "length (dropWhile isWordChar t') \<le> length t'"
          by (rule length_dropWhile_le)
        with r le dw s show ?thesis by simp
      qed
    qed
  qed
qed

text \<open>
  All matches of the pattern, from left to right: behind a match the search goes on where
  the match ended, and where there is none it moves one code unit on.
\<close>

function filePathCount :: "jsstring \<Rightarrow> nat" where
  "filePathCount s =
     (if s = [] then 0
      else (case filePathAt s of
              Some r \<Rightarrow> Suc (filePathCount r)
            | None \<Rightarrow> filePathCount (tl s)))"
  by pat_completeness auto
termination
proof (relation "measure length")
  show "wf (measure length)" by simp
next
  fix s r :: jsstring
  assume "filePathAt s = Some r"
  then show "(r, s) \<in> measure length" by (simp add: filePathAt_shorter)
next
  fix s :: jsstring
  assume "s \<noteq> []"
  then show "(tl s, s) \<in> measure length" by (cases s) simp_all
qed

declare codeBlockCount.simps [simp del] filePathCount.simps [simp del]

subsection \<open>analyzePrompt\<close>

text \<open>
  The loop over \<open>Object.entries(TASK_TYPE_KEYWORDS)\<close>, with its two variables
  \<open>taskType\<close> and \<open>maxScore\<close> as the accumulator.
\<close>

fun taskTypeLoop ::
  "jsstring \<Rightarrow> (TaskType \<times> jsstring list) list \<Rightarrow> TaskType \<times> nat \<Rightarrow> TaskType \<times> nat" where
  "taskTypeLoop lowerText [] (curType, maxScore) = (curType, maxScore)"
| "taskTypeLoop lowerText ((type, keywords) # rest) (curType, maxScore) =
     (let score = keywordHits lowerText keywords in
      if score > maxScore then taskTypeLoop lowerText rest (type, score)
      else taskTypeLoop lowerText rest (curType, maxScore))"

definition determineTaskType :: "jsstring \<Rightarrow> TaskType" where
  "determineTaskType lowerText = fst (taskTypeLoop lowerText TASK_TYPE_KEYWORDS (question, 0))"

definition complexityScoreOf ::
  "nat \<Rightarrow> nat \<Rightarrow> nat \<Rightarrow> nat \<Rightarrow> nat \<Rightarrow> nat \<Rightarrow> TaskType \<Rightarrow> int" where
  "complexityScoreOf wordCount lineCount codeBlocks filePaths complexKeywordCount
      simpleKeywordCount type =
     (if wordCount > 200 then 3 else if wordCount > 100 then 2 else if wordCount > 50 then 1 else 0)
     + (if lineCount > 50 then 2 else if lineCount > 20 then 1 else 0)
     + int (min (codeBlocks * 2) 6)
     + int (min filePaths 3)
     + int complexKeywordCount * 2
     - int simpleKeywordCount
     + (if type \<in> set [architecture, refactoring, code_generation] then 3
        else if type \<in> set [debugging, review] then 2 else 0)"

definition complexityOfScore :: "int \<Rightarrow> TaskComplexity" where
  "complexityOfScore complexityScore =
     (if complexityScore \<ge> 8 then complex
      else if complexityScore \<ge> 3 then medium
      else simple)"

definition analyzePrompt :: "(jsstring \<Rightarrow> jsstring) \<Rightarrow> jsstring \<Rightarrow> PromptAnalysis" where
  "analyzePrompt lower promptText =
     (let lowerText = lower promptText;
          lineCount = lineCountOf promptText;
          wordCount = wordCountOf promptText;
          codeBlocks = codeBlockCount promptText;
          filePaths = filePathCount promptText;
          type = determineTaskType lowerText;
          complexityScore =
            complexityScoreOf wordCount lineCount codeBlocks filePaths
              (keywordHits lowerText COMPLEX_KEYWORDS) (keywordHits lowerText SIMPLE_KEYWORDS)
              type;
          tier = complexityOfScore complexityScore;
          (model, effort, tokens) =
            (if tier = complex then (glm_4_7, high, 20000)
             else if tier = medium then (glm_4_7, medium_effort, 15000)
             else if type = question \<or> type = explanation then (glm_4_5_air, low, 10000)
             else (glm_4_7, low, 10000))
      in \<lparr> complexity = tier, taskType = type, suggestedModel = model,
           suggestedThinkingEffort = effort, suggestedMaxThinkingTokens = tokens,
           reasoningScore = complexityScore, reasoningWords = wordCount,
           reasoningLines = lineCount, reasoningCodeBlocks = codeBlocks \<rparr>)"

subsection \<open>Notions in which the properties of the analyzer are stated\<close>

text \<open>
  The place of a category in the enumeration \<open>TaskType\<close>, and the number of its
  keywords that occur in a lowered text.
\<close>

definition taskTypeRank :: "TaskType \<Rightarrow> nat" where
  "taskTypeRank c =
     (case c of question \<Rightarrow> 0 | explanation \<Rightarrow> 1 | code_generation \<Rightarrow> 2 | refactoring \<Rightarrow> 3
      | debugging \<Rightarrow> 4 | architecture \<Rightarrow> 5 | review \<Rightarrow> 6)"

definition taskTypeHits :: "jsstring \<Rightarrow> TaskType \<Rightarrow> nat" where
  "taskTypeHits lowerText c =
     (case map_of TASK_TYPE_KEYWORDS c of
        Some keywords \<Rightarrow> keywordHits lowerText keywords
      | None \<Rightarrow> 0)"

text \<open>A text of one hundred words \<open>x\<close>, each two separated by one space.\<close>

definition hundredWords :: jsstring where
  "hundredWords = concat (replicate 99 (ascii ''x '')) @ ascii ''x''"

section \<open>Objects used as dictionaries\<close>

text \<open>
  The program keeps its tables in plain objects (\<open>{}\<close> and object literals) and reads them
  with \<open>table[key]\<close>. Such a read finds the object's own property of that name, and, where
  there is none, the member of that name that every plain object inherits from
  \<open>Object.prototype\<close>; only a name that is neither reads as \<open>undefined\<close>. The inherited
  members are functions, and \<open>__proto__\<close> reads as the prototype object: all are truthy.
\<close>

definition objectPrototypeMembers :: "jsstring list" where
  "objectPrototypeMembers =
    [ascii ''constructor'', ascii ''__defineGetter__'', ascii ''__defineSetter__'',
     ascii ''hasOwnProperty'', ascii ''__lookupGetter__'', ascii ''__lookupSetter__'',
     ascii ''isPrototypeOf'', ascii ''propertyIsEnumerable'', ascii ''toString'',
     ascii ''valueOf'', ascii ''__proto__'', ascii ''toLocaleString'']"

datatype 'a property = Undefined | Own 'a | Inherited jsstring

definition getProperty :: "(jsstring \<rightharpoonup> 'a) \<Rightarrow> jsstring \<Rightarrow> 'a property" where
  "getProperty own key =
     (case own key of
        Some v \<Rightarrow> Own v
      | None \<Rightarrow> if key \<in> set objectPrototypeMembers then Inherited key else Undefined)"

text \<open>
  The \<open>name\<close> of an inherited member: the functions carry their property name, the
  constructor is \<open>Object\<close>, and the prototype object that \<open>__proto__\<close> reads has none.
\<close>

definition inheritedMemberName :: "jsstring \<Rightarrow> jsstring option" where
  "inheritedMemberName key =
     (if key = ascii ''__proto__'' then None
      else if key = ascii ''constructor'' then Some (ascii ''Object'')
      else Some key)"

subsection \<open>mapModelToGlm and getClaudeModelFromGlm\<close>

definition modelMapping :: "(jsstring \<times> jsstring) list" where
  "modelMapping =
    [(ascii ''claude-4.5-sonnet-20250114'', ascii ''glm-4.7''),
     (ascii ''claude-4-haiku-20250114'', ascii ''glm-4.5-air''),
     (ascii ''claude-4-opus-20250114'', ascii ''glm-4.7''),
     (ascii ''claude-3-5-sonnet-20241022'', ascii ''glm-4.7''),
     (ascii ''claude-3-5-haiku-20241022'', ascii ''glm-4.5-air''),
     (ascii ''claude-3-opus-20240229'', ascii ''glm-4.7'')]"

text \<open>
  What \<open>modelMapping[claudeModel] || claudeModel\<close> evaluates to: a string, or a member of
  \<open>Object.prototype\<close> (named by its key) where the read finds one.
\<close>

datatype MappedModel = ModelName jsstring | PrototypeMember jsstring

definition mapModelToGlm :: "jsstring \<Rightarrow> MappedModel" where
  "mapModelToGlm claudeModel =
     (case getProperty (map_of modelMapping) claudeModel of
        Own glm \<Rightarrow> if glm \<noteq> [] then ModelName glm else ModelName claudeModel
      | Inherited member \<Rightarrow> PrototypeMember member
      | Undefined \<Rightarrow> ModelName claudeModel)"

definition glmModelId :: "GlmModel \<Rightarrow> jsstring" where
  "glmModelId g = (case g of glm_4_7 \<Rightarrow> ascii ''glm-4.7'' | glm_4_5_air \<Rightarrow> ascii ''glm-4.5-air'')"

definition getClaudeModelFromGlm :: "GlmModel \<Rightarrow> jsstring" where
  "getClaudeModelFromGlm glmModel =
     (if glmModel = glm_4_5_air then ascii ''claude-4-haiku-20250114''
      else ascii ''claude-4-opus-20250114'')"

section \<open>Managed settings and the process environment (utils.ts)\<close>

text \<open>
  \<open>process.env\<close> holds the environment variables as its own properties and inherits
  from \<open>Object.prototype\<close> like the plain objects above, so \<open>process.env[key]\<close> is a
  \<open>getProperty\<close> too.
\<close>

type_synonym ProcessEnv = "jsstring \<rightharpoonup> jsstring"

text \<open>
  \<open>interface ManagedSettings\<close>, without \<open>permissions\<close> (which the function below does
  not read). \<open>env\<close> is given as \<open>Object.entries\<close> lists it. \<open>model_mapping\<close> is
  represented by the text that \<open>JSON.stringify\<close> makes of it, the only use the program
  has for it.
\<close>

record ZAiConfig =
  enabled :: "bool option"
  api_endpoint :: "jsstring option"
  model_mapping :: "jsstring option"

record ManagedSettings =
  env :: "(jsstring \<times> jsstring) list option"
  z_ai :: "ZAiConfig option"

text \<open>The loop \<open>for (const [key, value] of Object.entries(settings.env))\<close>.\<close>

fun applyEnvEntries :: "(jsstring \<times> jsstring) list \<Rightarrow> ProcessEnv \<Rightarrow> ProcessEnv" where
  "applyEnvEntries [] processEnv = processEnv"
| "applyEnvEntries ((key, value) # rest) processEnv =
     applyEnvEntries rest
       (if getProperty processEnv key = Undefined then processEnv(key \<mapsto> value)
        else processEnv)"

definition applyZAiConfig :: "ZAiConfig \<Rightarrow> ProcessEnv \<Rightarrow> ProcessEnv" where
  "applyZAiConfig zAiConfig processEnv =
     (if enabled zAiConfig = Some True then
        (let e1 = (case api_endpoint zAiConfig of
                     Some endpoint \<Rightarrow>
                       if endpoint \<noteq> [] \<and> processEnv (ascii ''ANTHROPIC_BASE_URL'') = None
                       then processEnv(ascii ''ANTHROPIC_BASE_URL'' \<mapsto> endpoint)
                       else processEnv
                   | None \<Rightarrow> processEnv);
             e2 = (case model_mapping zAiConfig of
                     Some text \<Rightarrow> e1(ascii ''Z_AI_MODEL_MAPPING_CONFIG'' \<mapsto> text)
                   | None \<Rightarrow> e1)
         in e2(ascii ''Z_AI_ENABLED'' \<mapsto> ascii ''true''))
      else processEnv)"

definition applyEnvironmentSettings :: "ManagedSettings \<Rightarrow> ProcessEnv \<Rightarrow> ProcessEnv" where
  "applyEnvironmentSettings settings processEnv =
     (let e1 = (case env settings of
                  Some entries \<Rightarrow> applyEnvEntries entries processEnv
                | None \<Rightarrow> processEnv)
      in case z_ai settings of
           Some zAiConfig \<Rightarrow> applyZAiConfig zAiConfig e1
         | None \<Rightarrow> e1)"

text \<open>
  A settings file whose \<open>env\<close> section names \<open>Z_AI_ENABLED\<close> and whose \<open>z_ai\<close>
  section is enabled, and an environment in which that variable is already set.
\<close>

definition zaiEnabledSettings :: ManagedSettings where
  "zaiEnabledSettings =
     \<lparr> env = Some [(ascii ''Z_AI_ENABLED'', ascii ''false'')],
       z_ai = Some \<lparr> enabled = Some True, api_endpoint = None, model_mapping = None \<rparr> \<rparr>"

definition zaiDisabledEnv :: ProcessEnv where
  "zaiDisabledEnv = [ascii ''Z_AI_ENABLED'' \<mapsto> ascii ''0'']"

text \<open>The variables that an enabled \<open>z_ai\<close> section writes whatever their value was.\<close>

definition zAiWrites :: "ManagedSettings \<Rightarrow> jsstring list" where
  "zAiWrites settings =
     (case z_ai settings of
        Some zAiConfig \<Rightarrow>
          if enabled zAiConfig = Some True then
            ascii ''Z_AI_ENABLED'' #
            (case model_mapping zAiConfig of
               Some text \<Rightarrow> [ascii ''Z_AI_MODEL_MAPPING_CONFIG'']
             | None \<Rightarrow> [])
          else []
      | None \<Rightarrow> [])"

text \<open>
  A settings file as \<open>saveApiKey\<close> writes it, and an environment that already has a base
  URL of its own.
\<close>

definition savedSettings :: ManagedSettings where
  "savedSettings =
     \<lparr> env = Some [(ascii ''ANTHROPIC_BASE_URL'', ascii ''https://api.z.ai/api/anthropic''),
                   (ascii ''API_TIMEOUT_MS'', ascii ''3000000''),
                   (ascii ''Z_AI_MODEL_MAPPING'', ascii ''true''),
                   (ascii ''ANTHROPIC_AUTH_TOKEN'', ascii ''key'')],
       z_ai = Some \<lparr> enabled = Some True,
                     api_endpoint = Some (ascii ''https://api.z.ai/api/anthropic''),
                     model_mapping = Some (ascii ''{}'') \<rparr> \<rparr>"

definition ownBaseUrlEnv :: ProcessEnv where
  "ownBaseUrlEnv = [ascii ''ANTHROPIC_BASE_URL'' \<mapsto> ascii ''http://localhost:8080'']"

section \<open>Sessions (src/acp-agent.ts)\<close>

datatype JsError =
  Error jsstring        \<comment> \<open>\<open>new Error(message)\<close>\<close>
| TypeError             \<comment> \<open>a property read on \<open>undefined\<close> or \<open>null\<close>\<close>
| authRequired          \<comment> \<open>\<open>RequestError.authRequired()\<close>\<close>
| internalError jsstring

text \<open>
  What is given to the logger: a line to \<open>log\<close>, a line to \<open>error\<close>, and the line
  that \<open>unreachable\<close> writes for a value it prints with \<open>JSON.stringify\<close>. Arguments
  that a call logs beside its message are left out.
\<close>

datatype json =
  JNull | JBool bool | JNumber int | JString jsstring
| JArray "json list" | JObject "(jsstring \<times> json) list"

datatype LogLine = LogLine jsstring | ErrorLine jsstring | UnexpectedCase json

datatype PermissionMode = default_mode | acceptEdits | bypassPermissions | plan | dontAsk

text \<open>
  The thinking budget given to the engine: a number of the program, or the number that
  \<open>parseInt(text, 10)\<close> reads from the text of an environment variable.
\<close>

datatype ThinkingTokens = Tokens nat | ParseIntOf jsstring

text \<open>
  \<open>Query\<close> is the handle of the upstream engine. The model keeps what the program sets
  on it: the model, the thinking budget (\<open>None\<close> is \<open>null\<close>) and the permission mode.
  A call on the handle is taken to succeed.
\<close>

record Query =
  q_model :: "jsstring option"
  q_maxThinkingTokens :: "ThinkingTokens option"
  q_permissionMode :: "PermissionMode option"

text \<open>
  \<open>type Session\<close>, without the input channel, the settings manager and the stored
  request.
\<close>

record Session =
  query :: "Query option"
  cancelled :: bool
  permissionMode :: PermissionMode
  isAuthRequired :: bool

type_synonym Sessions = "jsstring \<rightharpoonup> Session"

definition isOpusModel :: "(jsstring \<Rightarrow> jsstring) \<Rightarrow> jsstring \<Rightarrow> bool" where
  "isOpusModel lower modelId \<longleftrightarrow>
     str_includes (lower modelId) (ascii ''opus'') \<or>
     str_includes (lower modelId) (ascii ''glm-4.7'') \<or>
     str_includes (lower modelId) (ascii ''glm-4.6'')"

text \<open>
  \<open>process.env.MAX_THINKING_TOKENS ? parseInt(process.env.MAX_THINKING_TOKENS, 10) : 15000\<close>
\<close>

definition configuredThinkingTokens :: "ProcessEnv \<Rightarrow> ThinkingTokens" where
  "configuredThinkingTokens processEnv =
     (case processEnv (ascii ''MAX_THINKING_TOKENS'') of
        Some text \<Rightarrow> if text \<noteq> [] then ParseIntOf text else Tokens 15000
      | None \<Rightarrow> Tokens 15000)"

subsection \<open>setSessionModel\<close>

text \<open>
  A session identifier that names a member of \<open>Object.prototype\<close> reads as that member:
  it is truthy, so nothing is thrown, and it has no property \<open>query\<close>, so nothing is done.
\<close>

definition setSessionModel ::
  "(jsstring \<Rightarrow> jsstring) \<Rightarrow> ProcessEnv \<Rightarrow> Sessions \<Rightarrow> jsstring \<Rightarrow> jsstring \<Rightarrow> JsError + Sessions" where
  "setSessionModel lower processEnv sessions sessionId modelId =
     (case getProperty sessions sessionId of
        Undefined \<Rightarrow> Inl (Error (ascii ''Session not found''))
      | Inherited member \<Rightarrow> Inr sessions
      | Own session \<Rightarrow>
          (case query session of
             None \<Rightarrow> Inr sessions
           | Some q \<Rightarrow>
               (let q1 = q\<lparr>q_model := Some modelId\<rparr>;
                    q2 = (if isOpusModel lower modelId
                          then q1\<lparr>q_maxThinkingTokens := Some (configuredThinkingTokens processEnv)\<rparr>
                          else q1\<lparr>q_maxThinkingTokens := None\<rparr>)
                in Inr (sessions(sessionId \<mapsto> session\<lparr>query := Some q2\<rparr>)))))"

text \<open>The thinking budget in force for a session: that of its engine handle, if it has one.\<close>

definition maxThinkingTokensOf :: "Sessions \<Rightarrow> jsstring \<Rightarrow> ThinkingTokens option" where
  "maxThinkingTokensOf sessions sessionId =
     (case sessions sessionId of
        Some session \<Rightarrow> (case query session of Some q \<Rightarrow> q_maxThinkingTokens q | None \<Rightarrow> None)
      | None \<Rightarrow> None)"

subsection \<open>Notifications to the host\<close>

datatype Role = assistant | user

datatype ContentBlock =
  TextContent jsstring
| ImageContent jsstring jsstring "jsstring option"   \<comment> \<open>data, mimeType, uri\<close>

datatype ToolCallStatus = pending | completed | failed

text \<open>
  The \<open>update\<close> of a notification, by its \<open>sessionUpdate\<close> tag. \<open>tool_call\<close> carries the
  tool name, the call identifier, the raw input and the object of \<open>toolInfoFromToolUse\<close>;
  \<open>tool_call_update\<close> the tool name (if the cached value has one), the call identifier, the
  status and the object of \<open>toolUpdateFromToolResult\<close>. The objects that the source spreads
  into the update are kept as one field.
\<close>

datatype SessionUpdate =
  agent_message_chunk ContentBlock
| user_message_chunk ContentBlock
| agent_thought_chunk ContentBlock
| plan_update json
| tool_call jsstring jsstring "json option" ToolCallStatus json
| tool_call_update "jsstring option" jsstring ToolCallStatus json
| current_mode_update jsstring

record SessionNotification =
  n_sessionId :: jsstring
  n_update :: SessionUpdate

subsection \<open>canUseTool\<close>

datatype PermissionOptionKind = allow_always | allow_once | reject_once

record PermissionOption =
  po_kind :: PermissionOptionKind
  po_name :: jsstring
  po_optionId :: jsstring

record PermissionRequest =
  pr_options :: "PermissionOption list"
  pr_sessionId :: jsstring
  pr_toolCallId :: jsstring
  pr_rawInput :: json
  pr_title :: jsstring

text \<open>\<open>response.outcome\<close>, which may be missing.\<close>

datatype RequestPermissionOutcome = cancelled_outcome | selected jsstring

datatype PermissionUpdate = setMode jsstring | addRules jsstring | suggested json

datatype PermissionResult =
  allow json "PermissionUpdate list option"   \<comment> \<open>updatedInput, updatedPermissions\<close>
| deny jsstring bool                           \<comment> \<open>message, interrupt\<close>

record CanUseToolRun =
  result :: PermissionResult
  requested :: "PermissionRequest list"
  notified :: "SessionNotification list"
  sessionsAfter :: Sessions

definition exitPlanModeOptions :: "PermissionOption list" where
  "exitPlanModeOptions =
    [\<lparr> po_kind = allow_always, po_name = ascii ''Yes, and auto-accept edits'',
       po_optionId = ascii ''acceptEdits'' \<rparr>,
     \<lparr> po_kind = allow_once, po_name = ascii ''Yes, and manually approve edits'',
       po_optionId = ascii ''default'' \<rparr>,
     \<lparr> po_kind = reject_once, po_name = ascii ''No, keep planning'',
       po_optionId = ascii ''plan'' \<rparr>]"

definition toolPermissionOptions :: "PermissionOption list" where
  "toolPermissionOptions =
    [\<lparr> po_kind = allow_always, po_name = ascii ''Always Allow'',
       po_optionId = ascii ''allow_always'' \<rparr>,
     \<lparr> po_kind = allow_once, po_name = ascii ''Allow'', po_optionId = ascii ''allow'' \<rparr>,
     \<lparr> po_kind = reject_once, po_name = ascii ''Reject'', po_optionId = ascii ''reject'' \<rparr>]"

text \<open>The request that goes to the host for a tool, with the options given.\<close>

definition permissionRequest ::
  "PermissionOption list \<Rightarrow> (jsstring \<Rightarrow> json \<Rightarrow> jsstring) \<Rightarrow> jsstring \<Rightarrow> jsstring \<Rightarrow> json \<Rightarrow>
   jsstring \<Rightarrow> PermissionRequest" where
  "permissionRequest options toolTitle sessionId toolName toolInput toolUseID =
     \<lparr> pr_options = options, pr_sessionId = sessionId, pr_toolCallId = toolUseID,
       pr_rawInput = toolInput, pr_title = toolTitle toolName toolInput \<rparr>"

text \<open>
  \<open>canUseTool(sessionId)\<close> applied to a tool name, a tool input and the options
  \<open>{suggestions, toolUseID}\<close>. \<open>EDIT_TOOL_NAMES\<close> (mcp-server.ts) and the title that
  \<open>toolInfoFromToolUse\<close> (tools.ts) gives are arguments; \<open>requestPermission\<close> is the
  answer of the host to a request. The run lists the requests sent to the host and the
  notifications sent, in order.

  The closure is made by \<open>newSession\<close> for the identifier it has just drawn. For an
  identifier that names a member of \<open>Object.prototype\<close> the read finds that member, and
  the run, which may then write \<open>permissionMode\<close> into it, is not followed: \<open>None\<close>.
\<close>

definition canUseTool ::
  "jsstring list \<Rightarrow> (jsstring \<Rightarrow> json \<Rightarrow> jsstring) \<Rightarrow>
   (PermissionRequest \<Rightarrow> RequestPermissionOutcome option) \<Rightarrow>
   Sessions \<Rightarrow> jsstring \<Rightarrow> jsstring \<Rightarrow> json \<Rightarrow> PermissionUpdate list option \<Rightarrow> jsstring \<Rightarrow>
   CanUseToolRun option" where
  "canUseTool EDIT_TOOL_NAMES toolTitle requestPermission sessions sessionId
      toolName toolInput suggestions toolUseID =
     (case getProperty sessions sessionId of
        Undefined \<Rightarrow>
          Some \<lparr> result = deny (ascii ''Session not found'') True, requested = [],
                 notified = [], sessionsAfter = sessions \<rparr>
      | Inherited member \<Rightarrow> None
      | Own session \<Rightarrow>
          if toolName = ascii ''ExitPlanMode'' then
            (let request = permissionRequest exitPlanModeOptions toolTitle sessionId toolName
                             toolInput toolUseID;
                 accepted =
                   (case requestPermission request of
                      Some (selected optionId) \<Rightarrow>
                        if optionId = ascii ''default'' then Some (optionId, default_mode)
                        else if optionId = ascii ''acceptEdits'' then Some (optionId, acceptEdits)
                        else None
                    | _ \<Rightarrow> None)
             in case accepted of
                  Some (optionId, mode) \<Rightarrow>
                    Some \<lparr> result = allow toolInput
                             (Some (case suggestions of
                                      Some given \<Rightarrow> given
                                    | None \<Rightarrow> [setMode optionId])),
                           requested = [request],
                           notified = [\<lparr> n_sessionId = sessionId,
                                         n_update = current_mode_update optionId \<rparr>],
                           sessionsAfter =
                             sessions(sessionId \<mapsto> session\<lparr>permissionMode := mode\<rparr>) \<rparr>
                | None \<Rightarrow>
                    Some \<lparr> result = deny (ascii ''User rejected request to exit plan mode.'') True,
                           requested = [request], notified = [], sessionsAfter = sessions \<rparr>)
          else if permissionMode session = bypassPermissions \<or>
                  (permissionMode session = acceptEdits \<and> toolName \<in> set EDIT_TOOL_NAMES) then
            Some \<lparr> result = allow toolInput
                     (Some (case suggestions of
                              Some given \<Rightarrow> given
                            | None \<Rightarrow> [addRules toolName])),
                   requested = [], notified = [], sessionsAfter = sessions \<rparr>
          else
            (let request = permissionRequest toolPermissionOptions toolTitle sessionId toolName
                             toolInput toolUseID;
                 answer =
                   (case requestPermission request of
                      Some (selected optionId) \<Rightarrow>
                        if optionId = ascii ''allow'' \<or> optionId = ascii ''allow_always''
                        then Some optionId else None
                    | _ \<Rightarrow> None)
             in case answer of
                  Some optionId \<Rightarrow>
                    Some \<lparr> result =
                             (if optionId = ascii ''allow_always''
                              then allow toolInput
                                     (Some (case suggestions of
                                              Some given \<Rightarrow> given
                                            | None \<Rightarrow> [addRules toolName]))
                              else allow toolInput None),
                           requested = [request], notified = [], sessionsAfter = sessions \<rparr>
                | None \<Rightarrow>
                    Some \<lparr> result = deny (ascii ''User refused permission to run tool'') True,
                           requested = [request], notified = [], sessionsAfter = sessions \<rparr>))"

subsection \<open>newSession\<close>

text \<open>
  What \<open>newSession\<close> reads from the machine it runs on, and from the engine: whether
  \<open>query(...)\<close> throws or returns a handle, and the models the handle lists.
\<close>

record Machine =
  processEnv :: ProcessEnv
  homedir :: jsstring
  pathResolve :: "jsstring \<Rightarrow> jsstring \<Rightarrow> jsstring"
  existsSync :: "jsstring \<Rightarrow> bool"
  randomUUID :: jsstring
  IS_ROOT :: bool

record ModelInfo =
  mi_value :: jsstring
  mi_displayName :: jsstring
  mi_description :: jsstring

record Engine =
  startQuery :: "JsError + Query"
  supportedModels :: "ModelInfo list"

record NewSessionRequest =
  cwd :: jsstring
  abortSignalAborted :: bool   \<comment> \<open>\<open>_meta.claudeCode.options.abortController?.signal.aborted\<close>\<close>

record SessionModelState =
  availableModels :: "ModelInfo list"
  currentModelId :: jsstring

record NewSessionResponse =
  r_sessionId :: jsstring
  r_models :: SessionModelState
  r_currentModeId :: PermissionMode
  r_availableModes :: "PermissionMode list"

record Agent =
  sessions :: Sessions
  logged :: "LogLine list"

text \<open>\<open>getAvailableModels\<close>: the first model listed is selected on the handle.\<close>

definition getAvailableModels ::
  "(jsstring \<Rightarrow> jsstring) \<Rightarrow> ProcessEnv \<Rightarrow> ModelInfo list \<Rightarrow> Query \<Rightarrow>
   JsError + (SessionModelState \<times> Query)" where
  "getAvailableModels lower penv models q =
     (case models of
        [] \<Rightarrow> Inl TypeError
      | currentModel # others \<Rightarrow>
          (let q1 = q\<lparr>q_model := Some (mi_value currentModel)\<rparr>;
               q2 = (if isOpusModel lower (mi_value currentModel)
                     then q1\<lparr>q_maxThinkingTokens := Some (configuredThinkingTokens penv)\<rparr>
                     else q1)
           in Inr (\<lparr> availableModels =
                        filter (\<lambda>model. mi_value model \<noteq> mi_value currentModel) models,
                      currentModelId = mi_value currentModel \<rparr>, q2)))"

text \<open>
  The test with which \<open>newSession\<close> starts: the token is missing, empty or blank, or the
  backup of \<open>.claude.json\<close> exists and the file itself does not.
\<close>

definition authIsRequired :: "Machine \<Rightarrow> bool" where
  "authIsRequired m \<longleftrightarrow>
     (case processEnv m (ascii ''ANTHROPIC_AUTH_TOKEN'') of
        None \<Rightarrow> True
      | Some token \<Rightarrow> token = [] \<or> trim token = [])
     \<or> (existsSync m (pathResolve m (homedir m) (ascii ''.claude.json.backup'')) \<and>
        \<not> existsSync m (pathResolve m (homedir m) (ascii ''.claude.json'')))"

text \<open>
  \<open>newSession\<close> returns its response or the error it throws, and the agent as the call
  leaves it. Of the options handed to \<open>query\<close> the model keeps none: servers, system
  prompt, tool lists and hooks do not bear on what follows. The notification sent by the
  timer after the return is not part of the call.
\<close>

definition newSession ::
  "(jsstring \<Rightarrow> jsstring) \<Rightarrow> Machine \<Rightarrow> Engine \<Rightarrow> Agent \<Rightarrow> NewSessionRequest \<Rightarrow>
   (JsError + NewSessionResponse) \<times> Agent" where
  "newSession lower m engine agent params =
     (let a1 = agent\<lparr>logged := logged agent @ [LogLine (ascii ''newSession called with params:'')]\<rparr>
      in if authIsRequired m then
           (Inl authRequired,
            a1\<lparr>logged := logged a1 @ [LogLine (ascii ''Auth required - throwing authRequired error'')]\<rparr>)
         else if abortSignalAborted params then (Inl (Error (ascii ''Cancelled'')), a1)
         else
           (let a2 = a1\<lparr>logged := logged a1 @ [LogLine (ascii ''Creating query with cwd:'')]\<rparr>
            in case startQuery engine of
                 Inl error \<Rightarrow>
                   (Inl error,
                    a2\<lparr>logged := logged a2 @ [ErrorLine (ascii ''Error creating query:'')]\<rparr>)
               | Inr q \<Rightarrow>
                   (let sessionId = randomUUID m;
                        created = \<lparr> query = Some q, cancelled = False,
                                    permissionMode = default_mode, isAuthRequired = False \<rparr>;
                        a3 = a2\<lparr>sessions := (sessions a2)(sessionId \<mapsto> created)\<rparr>
                    in case getAvailableModels lower (processEnv m) (supportedModels engine) q of
                         Inl error \<Rightarrow> (Inl error, a3)
                       | Inr (models, q') \<Rightarrow>
                           (Inr \<lparr> r_sessionId = sessionId, r_models = models,
                                  r_currentModeId = default_mode,
                                  r_availableModes =
                                    [default_mode, acceptEdits, plan, dontAsk] @
                                    (if IS_ROOT m then [] else [bypassPermissions]) \<rparr>,
                            a3\<lparr>sessions :=
                                 (sessions a3)(sessionId \<mapsto> created\<lparr>query := Some q'\<rparr>)\<rparr>))))"

section \<open>Event translation (src/acp-agent.ts)\<close>

datatype ToolUseType = tool_use | server_tool_use | mcp_tool_use

record ToolUse =
  tu_type :: ToolUseType
  tu_id :: jsstring
  tu_name :: jsstring
  tu_input :: json

datatype ToolResultType =
  tool_result | tool_search_tool_result | web_fetch_tool_result | web_search_tool_result
| code_execution_tool_result | bash_code_execution_tool_result
| text_editor_code_execution_tool_result | mcp_tool_result

text \<open>\<open>tr_is_error\<close> is the value of \<open>"is_error" in chunk && chunk.is_error\<close>.\<close>

record ToolResult =
  tr_type :: ToolResultType
  tr_tool_use_id :: jsstring
  tr_is_error :: bool
  tr_content :: json

datatype ImageSource =
  base64_source jsstring jsstring   \<comment> \<open>data, media_type\<close>
| url_source jsstring
| other_source

datatype IgnoredType =
  document | search_result | redacted_thinking | input_json_delta | citations_delta
| signature_delta | container_upload

text \<open>
  A chunk of the content, by its \<open>type\<close> tag; \<open>unexpected_chunk\<close> is a value whose tag
  the \<open>switch\<close> does not list.
\<close>

datatype Chunk =
  text_chunk jsstring
| text_delta_chunk jsstring
| image_chunk ImageSource
| thinking_chunk jsstring
| thinking_delta_chunk jsstring
| tool_use_chunk ToolUse
| tool_result_chunk ToolResult
| ignored_chunk IgnoredType
| unexpected_chunk json

datatype Content = string_content jsstring | block_content "Chunk list"

subsection \<open>The tool-use cache\<close>

text \<open>
  \<open>toolUseCache\<close> starts as \<open>{}\<close>. The assignment \<open>toolUseCache[id] = chunk\<close> adds or
  replaces the own property \<open>id\<close>; for the one name \<open>__proto__\<close> it adds none and makes
  the chunk the prototype of the cache instead. \<open>c_prototype\<close> is \<open>None\<close> as long as the
  prototype is \<open>Object.prototype\<close>.

  A read finds the own property first. Behind it lie the members of \<open>Object.prototype\<close>
  (\<open>getProperty\<close>); what lies behind it once a chunk has become the prototype is not
  followed by the model: \<open>cacheGet\<close> is \<open>None\<close> there.
\<close>

record ToolUseCache =
  c_entries :: "jsstring \<rightharpoonup> ToolUse"
  c_prototype :: "ToolUse option"

definition emptyCache :: ToolUseCache where
  "emptyCache = \<lparr> c_entries = Map.empty, c_prototype = None \<rparr>"

definition cacheSet :: "ToolUseCache \<Rightarrow> jsstring \<Rightarrow> ToolUse \<Rightarrow> ToolUseCache" where
  "cacheSet cache key chunk =
     (if key = ascii ''__proto__'' then cache\<lparr>c_prototype := Some chunk\<rparr>
      else cache\<lparr>c_entries := (c_entries cache)(key \<mapsto> chunk)\<rparr>)"

definition cacheGet :: "ToolUseCache \<Rightarrow> jsstring \<Rightarrow> ToolUse property option" where
  "cacheGet cache key =
     (case c_entries cache key of
        Some chunk \<Rightarrow> Some (Own chunk)
      | None \<Rightarrow>
          (case c_prototype cache of
             None \<Rightarrow> Some (getProperty (c_entries cache) key)
           | Some chunk \<Rightarrow> None))"

subsection \<open>toAcpNotifications\<close>

text \<open>
  The functions of tools.ts that the translation calls are arguments: the object of
  \<open>toolInfoFromToolUse\<close> (which also reads the file-content cache), the object of
  \<open>toolUpdateFromToolResult\<close> for a result and the value read from the cache, and the
  entries of \<open>planEntries\<close>. \<open>registerHookCallback\<close> is recorded by the identifier it is
  called with.
\<close>

record Tools =
  toolInfoFromToolUse :: "ToolUse \<Rightarrow> (jsstring \<rightharpoonup> jsstring) \<Rightarrow> json"
  toolUpdateFromToolResult :: "ToolResult \<Rightarrow> ToolUse property \<Rightarrow> json"
  planEntries :: "json \<Rightarrow> json"

record Translation =
  t_cache :: ToolUseCache
  t_hooks :: "jsstring list"
  t_logged :: "LogLine list"

text \<open>
  \<open>Array.isArray(chunk.input.todos)\<close>: the read of \<open>todos\<close> throws on \<open>null\<close>
  (\<open>None\<close>); on an object it finds the own property (an object lists each key once), and
  on any other value nothing.
\<close>

definition inputTodosIsArray :: "json \<Rightarrow> bool option" where
  "inputTodosIsArray input =
     (case input of
        JNull \<Rightarrow> None
      | JObject properties \<Rightarrow>
          Some (case map_of properties (ascii ''todos'') of
                  Some (JArray items) \<Rightarrow> True
                | _ \<Rightarrow> False)
      | _ \<Rightarrow> Some False)"

definition messageChunk :: "Role \<Rightarrow> ContentBlock \<Rightarrow> SessionUpdate" where
  "messageChunk role content =
     (if role = assistant then agent_message_chunk content else user_message_chunk content)"

definition untrackedToolResult :: "jsstring \<Rightarrow> LogLine" where
  "untrackedToolResult toolUseId =
     ErrorLine (ascii ''[claude-code-acp] Got a tool result for tool use that wasn't tracked: ''
                @ toolUseId)"

text \<open>
  One turn of the loop over the chunks: the update it leaves in \<open>update\<close> and the state
  behind it, or the error it throws and the state at that point.
\<close>

datatype ChunkOutcome =
  Emitted "SessionUpdate option" Translation
| Raised JsError Translation
| NotFollowed

definition translateChunk ::
  "Tools \<Rightarrow> Role \<Rightarrow> (jsstring \<rightharpoonup> jsstring) \<Rightarrow> Translation \<Rightarrow> Chunk \<Rightarrow> ChunkOutcome" where
  "translateChunk tools role fileContentCache st chunk =
     (case chunk of
        text_chunk text \<Rightarrow> Emitted (Some (messageChunk role (TextContent text))) st
      | text_delta_chunk text \<Rightarrow> Emitted (Some (messageChunk role (TextContent text))) st
      | image_chunk source \<Rightarrow>
          Emitted (Some (messageChunk role
            (case source of
               base64_source data media_type \<Rightarrow> ImageContent data media_type None
             | url_source url \<Rightarrow> ImageContent [] [] (Some url)
             | other_source \<Rightarrow> ImageContent [] [] None))) st
      | thinking_chunk text \<Rightarrow> Emitted (Some (agent_thought_chunk (TextContent text))) st
      | thinking_delta_chunk text \<Rightarrow> Emitted (Some (agent_thought_chunk (TextContent text))) st
      | tool_use_chunk toolUse \<Rightarrow>
          (let st1 = st\<lparr>t_cache := cacheSet (t_cache st) (tu_id toolUse) toolUse\<rparr>
           in if tu_name toolUse = ascii ''TodoWrite'' then
                (case inputTodosIsArray (tu_input toolUse) of
                   None \<Rightarrow> Raised TypeError st1
                 | Some True \<Rightarrow>
                     Emitted (Some (plan_update (planEntries tools (tu_input toolUse)))) st1
                 | Some False \<Rightarrow> Emitted None st1)
              else
                Emitted
                  (Some (tool_call (tu_name toolUse) (tu_id toolUse) (Some (tu_input toolUse))
                           pending (toolInfoFromToolUse tools toolUse fileContentCache)))
                  (st1\<lparr>t_hooks := t_hooks st1 @ [tu_id toolUse]\<rparr>))
      | tool_result_chunk toolResult \<Rightarrow>
          (let status = (if tr_is_error toolResult then failed else completed)
           in case cacheGet (t_cache st) (tr_tool_use_id toolResult) of
                None \<Rightarrow> NotFollowed
              | Some Undefined \<Rightarrow>
                  Emitted None
                    (st\<lparr>t_logged := t_logged st @
                          [untrackedToolResult (tr_tool_use_id toolResult)]\<rparr>)
              | Some (Own toolUse) \<Rightarrow>
                  if tu_name toolUse \<noteq> ascii ''TodoWrite'' then
                    Emitted
                      (Some (tool_call_update (Some (tu_name toolUse))
                               (tr_tool_use_id toolResult) status
                               (toolUpdateFromToolResult tools toolResult (Own toolUse)))) st
                  else Emitted None st
              | Some (Inherited member) \<Rightarrow>
                  if inheritedMemberName member \<noteq> Some (ascii ''TodoWrite'') then
                    Emitted
                      (Some (tool_call_update (inheritedMemberName member)
                               (tr_tool_use_id toolResult) status
                               (toolUpdateFromToolResult tools toolResult (Inherited member)))) st
                  else Emitted None st)
      | ignored_chunk type \<Rightarrow> Emitted None st
      | unexpected_chunk value \<Rightarrow>
          Emitted None (st\<lparr>t_logged := t_logged st @ [UnexpectedCase value]\<rparr>))"

datatype TranslationResult =
  Returned "SessionNotification list"
| Threw JsError
| Unfollowed

text \<open>The loop \<open>for (const chunk of content)\<close>, with \<open>output\<close> as its accumulator.\<close>

fun translateChunks ::
  "Tools \<Rightarrow> Role \<Rightarrow> jsstring \<Rightarrow> (jsstring \<rightharpoonup> jsstring) \<Rightarrow> Chunk list \<Rightarrow>
   SessionNotification list \<Rightarrow> Translation \<Rightarrow> TranslationResult \<times> Translation" where
  "translateChunks tools role sessionId fileContentCache [] output st = (Returned output, st)"
| "translateChunks tools role sessionId fileContentCache (chunk # rest) output st =
     (case translateChunk tools role fileContentCache st chunk of
        Emitted None st' \<Rightarrow> translateChunks tools role sessionId fileContentCache rest output st'
      | Emitted (Some update) st' \<Rightarrow>
          translateChunks tools role sessionId fileContentCache rest
            (output @ [\<lparr> n_sessionId = sessionId, n_update = update \<rparr>]) st'
      | Raised error st' \<Rightarrow> (Threw error, st')
      | NotFollowed \<Rightarrow> (Unfollowed, st))"

text \<open>
  \<open>toAcpNotifications(content, role, sessionId, toolUseCache, fileContentCache, client,
  logger)\<close>: the cache, the registered hook callbacks and the logger are the state; the
  client is used by the hook callbacks alone, which run later.
\<close>

definition toAcpNotifications ::
  "Tools \<Rightarrow> Content \<Rightarrow> Role \<Rightarrow> jsstring \<Rightarrow> Translation \<Rightarrow> (jsstring \<rightharpoonup> jsstring) \<Rightarrow>
   TranslationResult \<times> Translation" where
  "toAcpNotifications tools content role sessionId st fileContentCache =
     (case content of
        string_content text \<Rightarrow>
          (Returned [\<lparr> n_sessionId = sessionId,
                       n_update = messageChunk role (TextContent text) \<rparr>], st)
      | block_content chunks \<Rightarrow>
          translateChunks tools role sessionId fileContentCache chunks [] st)"

section \<open>Instances for evaluation\<close>

text \<open>
  Values for the arguments that stand for what lies outside the source, at which the
  program is evaluated below.
\<close>

definition sampleTools :: Tools where
  "sampleTools =
     \<lparr> toolInfoFromToolUse = (\<lambda>toolUse files. JObject [(ascii ''title'', JString (tu_name toolUse))]),
       toolUpdateFromToolResult = (\<lambda>toolResult cached. JObject []),
       planEntries = (\<lambda>input. case input of
                                 JObject properties \<Rightarrow>
                                   (case map_of properties (ascii ''todos'') of
                                      Some todos \<Rightarrow> todos | None \<Rightarrow> JArray [])
                               | _ \<Rightarrow> JArray []) \<rparr>"

definition freshTranslation :: Translation where
  "freshTranslation = \<lparr> t_cache = emptyCache, t_hooks = [], t_logged = [] \<rparr>"

definition todoWriteChunk :: ToolUse where
  "todoWriteChunk =
     \<lparr> tu_type = tool_use, tu_id = ascii ''toolu_01'', tu_name = ascii ''TodoWrite'',
       tu_input = JObject [(ascii ''todos'', JArray [JString (ascii ''write the tests'')])] \<rparr>"

definition sampleMachine :: Machine where
  "sampleMachine =
     \<lparr> processEnv = Map.empty,
       homedir = ascii ''/home/dev'',
       pathResolve = (\<lambda>dir name. dir @ ascii ''/'' @ name),
       existsSync = (\<lambda>path. False),
       randomUUID = ascii ''3f0c8a52-7b1e-4d6a-9c2f-5e8d1a0b4c7e'',
       IS_ROOT = False \<rparr>"

definition sampleQuery :: Query where
  "sampleQuery = \<lparr> q_model = None, q_maxThinkingTokens = None, q_permissionMode = None \<rparr>"

definition sampleEngine :: Engine where
  "sampleEngine =
     \<lparr> startQuery = Inr sampleQuery,
       supportedModels =
         [\<lparr> mi_value = ascii ''glm-4.7'', mi_displayName = ascii ''GLM-4.7'',
            mi_description = [] \<rparr>,
          \<lparr> mi_value = ascii ''glm-4.5-air'', mi_displayName = ascii ''GLM-4.5-Air'',
            mi_description = [] \<rparr>] \<rparr>"

definition sampleSession :: "PermissionMode \<Rightarrow> Session" where
  "sampleSession mode =
     \<lparr> query = Some sampleQuery, cancelled = False, permissionMode = mode,
       isAuthRequired = False \<rparr>"

definition sampleSessionId :: jsstring where
  "sampleSessionId = ascii ''3f0c8a52-7b1e-4d6a-9c2f-5e8d1a0b4c7e''"

definition sampleEditTools :: "jsstring list" where
  "sampleEditTools = [ascii ''mcp__acp__Edit'', ascii ''mcp__acp__Write'']"

definition sampleTitle :: "jsstring \<Rightarrow> json \<Rightarrow> jsstring" where
  "sampleTitle toolName toolInput = toolName"

definition hostRejects :: "PermissionRequest \<Rightarrow> RequestPermissionOutcome option" where
  "hostRejects request = Some (selected (ascii ''reject''))"

definition tokenMachine :: Machine where
  "tokenMachine = sampleMachine\<lparr>processEnv := [ascii ''ANTHROPIC_AUTH_TOKEN'' \<mapsto> ascii ''key'']\<rparr>"

definition blankTokenMachine :: Machine where
  "blankTokenMachine = sampleMachine\<lparr>processEnv := [ascii ''ANTHROPIC_AUTH_TOKEN'' \<mapsto> [32, 9]]\<rparr>"

definition sampleAgent :: Agent where
  "sampleAgent = \<lparr> sessions = Map.empty, logged = [] \<rparr>"

definition sampleRequest :: NewSessionRequest where
  "sampleRequest = \<lparr> cwd = ascii ''/home/dev/project'', abortSignalAborted = False \<rparr>"

section \<open>Properties of the prompt analyzer\<close>

subsection \<open>The task type is the first category with the most hits\<close>

lemma taskTypeLoop_first_max:
  "taskTypeLoop lt ps (t0, m0) = (t, m) \<Longrightarrow>
     m0 \<le> m \<and> (\<forall>p\<in>set ps. keywordHits lt (snd p) \<le> m) \<and>
     ((t = t0 \<and> m = m0) \<or>
      (\<exists>i<length ps. fst (ps ! i) = t \<and> keywordHits lt (snd (ps ! i)) = m \<and> m0 < m \<and>
          (\<forall>j<i. keywordHits lt (snd (ps ! j)) < m)))"
proof (induction ps arbitrary: t0 m0)
  case Nil
  then show ?case by simp
next
  case (Cons p ps)
  obtain c ks where p: "p = (c, ks)" by (cases p)
  let ?h = "keywordHits lt ks"
  show ?case
  proof (cases "?h > m0")
    case True
    with Cons.prems p have run: "taskTypeLoop lt ps (c, ?h) = (t, m)" by simp
    note ih = Cons.IH [OF run]
    from ih have le: "?h \<le> m" by simp
    from ih consider (same) "t = c" "m = ?h"
      | (later) i where "i < length ps" "fst (ps ! i) = t" "keywordHits lt (snd (ps ! i)) = m"
          "?h < m" "\<forall>j<i. keywordHits lt (snd (ps ! j)) < m"
      by blast
    then have "\<exists>i<length (p # ps). fst ((p # ps) ! i) = t \<and>
        keywordHits lt (snd ((p # ps) ! i)) = m \<and> m0 < m \<and>
        (\<forall>j<i. keywordHits lt (snd ((p # ps) ! j)) < m)"
    proof cases
      case same
      with True p show ?thesis by (intro exI [of _ 0]) simp
    next
      case later
      have "\<forall>j<Suc i. keywordHits lt (snd ((p # ps) ! j)) < m"
        using later p by (auto simp: less_Suc_eq_0_disj)
      with later True show ?thesis by (intro exI [of _ "Suc i"]) simp
    qed
    with ih le True p show ?thesis by auto
  next
    case False
    with Cons.prems p have run: "taskTypeLoop lt ps (t0, m0) = (t, m)" by simp
    note ih = Cons.IH [OF run]
    from ih have le: "m0 \<le> m" by simp
    from ih consider (same) "t = t0" "m = m0"
      | (later) i where "i < length ps" "fst (ps ! i) = t" "keywordHits lt (snd (ps ! i)) = m"
          "m0 < m" "\<forall>j<i. keywordHits lt (snd (ps ! j)) < m"
      by blast
    then have "(t = t0 \<and> m = m0) \<or> (\<exists>i<length (p # ps). fst ((p # ps) ! i) = t \<and>
        keywordHits lt (snd ((p # ps) ! i)) = m \<and> m0 < m \<and>
        (\<forall>j<i. keywordHits lt (snd ((p # ps) ! j)) < m))"
    proof cases
      case same
      then show ?thesis by simp
    next
      case later
      have "\<forall>j<Suc i. keywordHits lt (snd ((p # ps) ! j)) < m"
        using later p False by (auto simp: less_Suc_eq_0_disj)
      with later have "\<exists>i<length (p # ps). fst ((p # ps) ! i) = t \<and>
        keywordHits lt (snd ((p # ps) ! i)) = m \<and> m0 < m \<and>
        (\<forall>j<i. keywordHits lt (snd ((p # ps) ! j)) < m)"
        by (intro exI [of _ "Suc i"]) simp
      then show ?thesis ..
    qed
    with ih le False p show ?thesis by auto
  qed
qed

lemma TASK_TYPE_KEYWORDS_nth:
  "taskTypeRank c < length TASK_TYPE_KEYWORDS \<and>
   fst (TASK_TYPE_KEYWORDS ! taskTypeRank c) = c \<and>
   map_of TASK_TYPE_KEYWORDS c = Some (snd (TASK_TYPE_KEYWORDS ! taskTypeRank c))"
  by (cases c) (simp_all add: taskTypeRank_def TASK_TYPE_KEYWORDS_def)

lemma TASK_TYPE_KEYWORDS_rank:
  "i < length TASK_TYPE_KEYWORDS \<Longrightarrow> taskTypeRank (fst (TASK_TYPE_KEYWORDS ! i)) = i"
proof -
  assume "i < length TASK_TYPE_KEYWORDS"
  then have "i < 7" by (simp add: TASK_TYPE_KEYWORDS_def)
  then consider "i = 0" | "i = 1" | "i = 2" | "i = 3" | "i = 4" | "i = 5" | "i = 6" by linarith
  then show ?thesis
    by cases (simp_all add: taskTypeRank_def TASK_TYPE_KEYWORDS_def)
qed

lemma taskTypeHits_nth:
  "taskTypeHits lt c = keywordHits lt (snd (TASK_TYPE_KEYWORDS ! taskTypeRank c))"
  using TASK_TYPE_KEYWORDS_nth [of c] by (simp add: taskTypeHits_def)

lemma determineTaskType_first_max:
  fixes lt :: jsstring
  defines "t \<equiv> determineTaskType lt"
  shows "(\<forall>c. taskTypeHits lt c \<le> taskTypeHits lt t) \<and>
     (\<forall>c. taskTypeHits lt c = taskTypeHits lt t \<longrightarrow> taskTypeRank t \<le> taskTypeRank c) \<and>
     ((\<forall>c. taskTypeHits lt c = 0) \<longrightarrow> t = question)"
proof -
  obtain m where run: "taskTypeLoop lt TASK_TYPE_KEYWORDS (question, 0) = (t, m)"
    unfolding t_def determineTaskType_def by (cases "taskTypeLoop lt TASK_TYPE_KEYWORDS (question, 0)") simp
  note spec = taskTypeLoop_first_max [OF run]
  have all_le: "taskTypeHits lt c \<le> m" for c
  proof -
    have "TASK_TYPE_KEYWORDS ! taskTypeRank c \<in> set TASK_TYPE_KEYWORDS"
      using TASK_TYPE_KEYWORDS_nth [of c] by (intro nth_mem) simp
    with spec show ?thesis by (simp add: taskTypeHits_nth)
  qed
  from spec consider (default) "t = question" "m = 0"
    | (found) i where "i < length TASK_TYPE_KEYWORDS" "fst (TASK_TYPE_KEYWORDS ! i) = t"
        "keywordHits lt (snd (TASK_TYPE_KEYWORDS ! i)) = m" "0 < m"
        "\<forall>j<i. keywordHits lt (snd (TASK_TYPE_KEYWORDS ! j)) < m"
    by blast
  then show ?thesis
  proof cases
    case default
    with all_le have "taskTypeHits lt c = 0" for c using le_zero_eq by blast
    with default show ?thesis by (simp add: taskTypeRank_def)
  next
    case found
    from found(1,2) have rank: "taskTypeRank t = i" using TASK_TYPE_KEYWORDS_rank by blast
    with found(3) have m: "taskTypeHits lt t = m" by (simp add: taskTypeHits_nth)
    have first: "taskTypeRank t \<le> taskTypeRank c" if "taskTypeHits lt c = m" for c
    proof (rule ccontr)
      assume "\<not> taskTypeRank t \<le> taskTypeRank c"
      with rank have "taskTypeRank c < i" by simp
      with found(5) have "taskTypeHits lt c < m" by (simp add: taskTypeHits_nth)
      with that show False by simp
    qed
    from m found(4) have "\<not> (\<forall>c. taskTypeHits lt c = 0)" by (metis less_numeral_extra(3))
    with all_le m first show ?thesis by fastforce
  qed
qed


subsection \<open>Texts without keywords, fences and paths\<close>

lemma startsWith_subset: "startsWith s kw \<Longrightarrow> set kw \<subseteq> set s"
  by (induction s kw rule: startsWith.induct) auto

lemma str_includes_subset: "str_includes s kw \<Longrightarrow> set kw \<subseteq> set s"
proof (induction s)
  case Nil
  then show ?case by simp
next
  case (Cons c cs)
  then show ?case using startsWith_subset [of "c # cs" kw] by auto
qed

lemma keywordHits_none:
  "\<forall>kw\<in>set keywords. \<not> set kw \<subseteq> set s \<Longrightarrow> keywordHits s keywords = 0"
  using str_includes_subset by (auto simp: keywordHits_def filter_empty_conv)

lemma afterFence_no_backtick: "96 \<notin> set s \<Longrightarrow> afterFence s = None"
  by (induction s rule: afterFence.induct) auto

lemma codeBlockCount_no_backtick: "96 \<notin> set s \<Longrightarrow> codeBlockCount s = 0"
  by (simp add: codeBlockCount.simps afterFence_no_backtick)

lemma filePathAt_not_slash: "s = [] \<or> hd s \<noteq> 47 \<Longrightarrow> filePathAt s = None"
  by (cases s) (auto simp: filePathAt.simps)

lemma filePathCount_no_slash: "47 \<notin> set s \<Longrightarrow> filePathCount s = 0"
proof (induction s)
  case Nil
  then show ?case by (simp add: filePathCount.simps)
next
  case (Cons c cs)
  then have "filePathAt (c # cs) = None" by (intro filePathAt_not_slash) auto
  with Cons show ?case by (simp add: filePathCount.simps [of "c # cs"])
qed

lemma lineCountOf_no_newline: "10 \<notin> set s \<Longrightarrow> lineCountOf s = 1"
  by (auto simp: lineCountOf_def filter_empty_conv)

lemma whiteSpaceRuns_x_space:
  "whiteSpaceRuns b (concat (replicate n (ascii ''x '')) @ r) =
     n + whiteSpaceRuns (if n = 0 then b else True) r"
  by (induction n arbitrary: b) (simp_all add: ascii_def isWhiteSpace_def)

lemma hundredWords_set: "set hundredWords = {120, 32}"
  by (auto simp: hundredWords_def ascii_def)

lemma hundredWords_lower: "toLowerCaseAscii hundredWords = hundredWords"
proof -
  have "\<forall>c\<in>set hundredWords. \<not> (65 \<le> c \<and> c \<le> 90)" by (simp add: hundredWords_set)
  then show ?thesis unfolding toLowerCaseAscii_def by (simp add: map_idI)
qed

lemma hundredWords_counts:
  "wordCountOf hundredWords = 100" "lineCountOf hundredWords = 1"
  "codeBlockCount hundredWords = 0" "filePathCount hundredWords = 0"
proof -
  show "wordCountOf hundredWords = 100"
    unfolding wordCountOf_def hundredWords_def whiteSpaceRuns_x_space
    by (simp add: ascii_def isWhiteSpace_def)
  show "lineCountOf hundredWords = 1"
    by (rule lineCountOf_no_newline) (simp add: hundredWords_set)
  show "codeBlockCount hundredWords = 0"
    by (rule codeBlockCount_no_backtick) (simp add: hundredWords_set)
  show "filePathCount hundredWords = 0"
    by (rule filePathCount_no_slash) (simp add: hundredWords_set)
qed

lemma hundredWords_keywords:
  "keywordHits hundredWords COMPLEX_KEYWORDS = 0"
  "keywordHits hundredWords SIMPLE_KEYWORDS = 0"
  "determineTaskType hundredWords = question"
proof -
  show "keywordHits hundredWords COMPLEX_KEYWORDS = 0"
    by (rule keywordHits_none) (simp add: hundredWords_set COMPLEX_KEYWORDS_def ascii_def)
  show "keywordHits hundredWords SIMPLE_KEYWORDS = 0"
    by (rule keywordHits_none) (simp add: hundredWords_set SIMPLE_KEYWORDS_def ascii_def)
  have "\<forall>p\<in>set TASK_TYPE_KEYWORDS. keywordHits hundredWords (snd p) = 0"
    unfolding TASK_TYPE_KEYWORDS_def
    by (auto intro!: keywordHits_none simp: hundredWords_set ascii_def)
  then show "determineTaskType hundredWords = question"
    by (simp add: determineTaskType_def TASK_TYPE_KEYWORDS_def)
qed

subsection \<open>The tier of a prompt\<close>

lemma analyzePrompt_complexity:
  "complexity (analyzePrompt lower text) =
     complexityOfScore (complexityScoreOf (wordCountOf text) (lineCountOf text)
       (codeBlockCount text) (filePathCount text) (keywordHits (lower text) COMPLEX_KEYWORDS)
       (keywordHits (lower text) SIMPLE_KEYWORDS) (determineTaskType (lower text)))"
  by (simp add: analyzePrompt_def Let_def split: prod.splits)

lemma analyzePrompt_taskType:
  "taskType (analyzePrompt lower text) = determineTaskType (lower text)"
  by (simp add: analyzePrompt_def Let_def split: prod.splits)

text \<open>
  The text \<open>hundredWords\<close> has exactly 100 words on one line, no code block, no file path
  and no keyword, and its task type is the default; its score is 1 (the step for more than
  50 words), and its tier is not \<open>medium\<close>.
\<close>

theorem C6_hundred_words_counterexample:
  "wordCountOf hundredWords = 100 \<and> lineCountOf hundredWords = 1 \<and>
   codeBlockCount hundredWords = 0 \<and> filePathCount hundredWords = 0 \<and>
   keywordHits (toLowerCaseAscii hundredWords) COMPLEX_KEYWORDS = 0 \<and>
   keywordHits (toLowerCaseAscii hundredWords) SIMPLE_KEYWORDS = 0 \<and>
   taskType (analyzePrompt toLowerCaseAscii hundredWords) = question \<and>
   complexity (analyzePrompt toLowerCaseAscii hundredWords) \<noteq> medium"
  by (simp add: analyzePrompt_complexity analyzePrompt_taskType hundredWords_lower
      hundredWords_counts hundredWords_keywords complexityScoreOf_def complexityOfScore_def)

text \<open>
  C6, as the program has it: a prompt of exactly 100 words that earns no other point (one
  line, no code block, no file path, no complex and no simple keyword, the default task
  type \<open>question\<close>) has the score 1 and the tier \<open>simple\<close>. The steps of the word
  count are strict: 2 points need more than 100 words, and \<open>medium\<close> needs 3 points.
\<close>

theorem C6_hundred_words_simple:
  assumes "wordCountOf text = 100" and "lineCountOf text = 1"
    and "codeBlockCount text = 0" and "filePathCount text = 0"
    and "keywordHits (lower text) COMPLEX_KEYWORDS = 0"
    and "keywordHits (lower text) SIMPLE_KEYWORDS = 0"
    and "taskType (analyzePrompt lower text) = question"
  shows "complexity (analyzePrompt lower text) = simple \<and>
         reasoningScore (analyzePrompt lower text) = 1"
  using assms
  by (simp add: analyzePrompt_def Let_def complexityScoreOf_def complexityOfScore_def
      split: prod.splits)

theorem C6_hundred_words_simple_witness:
  "wordCountOf hundredWords = 100 \<and> lineCountOf hundredWords = 1 \<and>
   codeBlockCount hundredWords = 0 \<and> filePathCount hundredWords = 0 \<and>
   keywordHits (toLowerCaseAscii hundredWords) COMPLEX_KEYWORDS = 0 \<and>
   keywordHits (toLowerCaseAscii hundredWords) SIMPLE_KEYWORDS = 0 \<and>
   taskType (analyzePrompt toLowerCaseAscii hundredWords) = question \<and>
   complexity (analyzePrompt toLowerCaseAscii hundredWords) = simple \<and>
   reasoningScore (analyzePrompt toLowerCaseAscii hundredWords) = 1"
  using C6_hundred_words_simple [of hundredWords toLowerCaseAscii]
  by (simp add: analyzePrompt_taskType hundredWords_lower hundredWords_counts
      hundredWords_keywords)

text \<open>
  C7: the task type of the analysis has the greatest number of keyword hits of all
  categories; among the categories with that number it is the first in the order of the
  enumeration; and it is \<open>question\<close> when no category has a hit.
\<close>

theorem C7_task_type_first_maximum:
  "let t = taskType (analyzePrompt lower text) in
     (\<forall>c. taskTypeHits (lower text) c \<le> taskTypeHits (lower text) t) \<and>
     (\<forall>c. taskTypeHits (lower text) c = taskTypeHits (lower text) t \<longrightarrow>
          taskTypeRank t \<le> taskTypeRank c) \<and>
     ((\<forall>c. taskTypeHits (lower text) c = 0) \<longrightarrow> t = question)"
  unfolding Let_def analyzePrompt_taskType by (rule determineTaskType_first_max)

lemma fix_and_review_lower:
  "toLowerCaseAscii (ascii ''Fix and review'') = ascii ''fix and review''"
  by (simp add: ascii_def toLowerCaseAscii_def)

theorem C7_task_type_first_maximum_witness:
  "taskTypeHits (toLowerCaseAscii (ascii ''Fix and review'')) review =
     taskTypeHits (toLowerCaseAscii (ascii ''Fix and review''))
       (taskType (analyzePrompt toLowerCaseAscii (ascii ''Fix and review''))) \<and>
   taskType (analyzePrompt toLowerCaseAscii (ascii ''Fix and review'')) = debugging \<and>
   taskTypeRank (taskType (analyzePrompt toLowerCaseAscii (ascii ''Fix and review'')))
     \<le> taskTypeRank review"
proof -
  have t: "determineTaskType (ascii ''fix and review'') = debugging"
    by (simp add: ascii_def keywordHits_def determineTaskType_def TASK_TYPE_KEYWORDS_def)
  have h: "taskTypeHits (ascii ''fix and review'') review =
      taskTypeHits (ascii ''fix and review'') debugging"
    by (simp add: ascii_def keywordHits_def taskTypeHits_def TASK_TYPE_KEYWORDS_def)
  from C7_task_type_first_maximum [of toLowerCaseAscii "ascii ''Fix and review''"] t h
  show ?thesis
    by (simp add: Let_def analyzePrompt_taskType fix_and_review_lower)
qed

text \<open>
  C8: for the text \<open>What is a closure?\<close>, whose lower case is \<open>what is a closure?\<close>, the
  analysis has the task type \<open>question\<close> and the tier \<open>simple\<close>.
\<close>

theorem C8_closure_question_simple:
  assumes "lower (ascii ''What is a closure?'') = ascii ''what is a closure?''"
  shows "taskType (analyzePrompt lower (ascii ''What is a closure?'')) = question \<and>
         complexity (analyzePrompt lower (ascii ''What is a closure?'')) = simple"
proof -
  let ?T = "ascii ''What is a closure?''" and ?L = "ascii ''what is a closure?''"
  have w: "wordCountOf ?T = 4" by (simp add: ascii_def wordCountOf_def isWhiteSpace_def)
  have l: "lineCountOf ?T = 1" by (rule lineCountOf_no_newline) (simp add: ascii_def)
  have c: "codeBlockCount ?T = 0" by (rule codeBlockCount_no_backtick) (simp add: ascii_def)
  have f: "filePathCount ?T = 0" by (rule filePathCount_no_slash) (simp add: ascii_def)
  have ck: "keywordHits ?L COMPLEX_KEYWORDS = 0"
    by (simp add: ascii_def keywordHits_def COMPLEX_KEYWORDS_def)
  have sk: "keywordHits ?L SIMPLE_KEYWORDS = 1"
    by (simp add: ascii_def keywordHits_def SIMPLE_KEYWORDS_def)
  have t: "determineTaskType ?L = question"
    by (simp add: ascii_def keywordHits_def determineTaskType_def TASK_TYPE_KEYWORDS_def)
  show ?thesis
    unfolding analyzePrompt_complexity analyzePrompt_taskType assms w l c f ck sk t
    by (simp add: complexityScoreOf_def complexityOfScore_def)
qed

theorem C8_closure_question_simple_witness:
  "toLowerCaseAscii (ascii ''What is a closure?'') = ascii ''what is a closure?'' \<and>
   taskType (analyzePrompt toLowerCaseAscii (ascii ''What is a closure?'')) = question \<and>
   complexity (analyzePrompt toLowerCaseAscii (ascii ''What is a closure?'')) = simple"
proof -
  have low: "toLowerCaseAscii (ascii ''What is a closure?'') = ascii ''what is a closure?''"
    by (simp add: ascii_def toLowerCaseAscii_def)
  from low C8_closure_question_simple [of toLowerCaseAscii, OF low] show ?thesis by simp
qed

section \<open>Properties of the model mapping\<close>

text \<open>
  Both GLM identifiers come back from the round trip, and a name that is neither a key of
  the table nor a member of \<open>Object.prototype\<close> is returned as it is.
\<close>

lemma mapModelToGlm_round_trip:
  "mapModelToGlm (getClaudeModelFromGlm g) = ModelName (glmModelId g)"
  by (cases g)
    (simp_all add: mapModelToGlm_def getClaudeModelFromGlm_def glmModelId_def getProperty_def
      modelMapping_def ascii_def)

lemma mapModelToGlm_unmapped:
  "claudeModel \<notin> fst ` set modelMapping \<Longrightarrow> claudeModel \<notin> set objectPrototypeMembers \<Longrightarrow>
     mapModelToGlm claudeModel = ModelName claudeModel"
  by (simp add: mapModelToGlm_def getProperty_def map_of_eq_None_iff [THEN iffD2])

text \<open>
  C10 at the model name \<open>constructor\<close>: the name is not a key of the mapping table, and
  \<open>mapModelToGlm\<close> does not return it; the read of the table finds the member that the
  table inherits, which is truthy, and that member is returned.
\<close>

theorem C10_constructor_not_returned:
  "ascii ''constructor'' \<notin> fst ` set modelMapping \<and>
   mapModelToGlm (ascii ''constructor'') = PrototypeMember (ascii ''constructor'') \<and>
   mapModelToGlm (ascii ''constructor'') \<noteq> ModelName (ascii ''constructor'')"
  by (simp add: mapModelToGlm_def getProperty_def modelMapping_def objectPrototypeMembers_def
      ascii_def)

section \<open>Properties of the environment settings\<close>

lemma applyEnvEntries_kept:
  "penv key = Some v \<Longrightarrow> applyEnvEntries entries penv key = Some v"
proof (induction entries arbitrary: penv)
  case Nil
  then show ?case by simp
next
  case (Cons entry entries)
  obtain k x where entry: "entry = (k, x)" by (cases entry)
  show ?case
  proof (cases "getProperty penv k = Undefined")
    case True
    with Cons.prems have "k \<noteq> key" by (auto simp: getProperty_def)
    with Cons.prems have "(penv(k \<mapsto> x)) key = Some v" by simp
    then have "applyEnvEntries entries (penv(k \<mapsto> x)) key = Some v" by (rule Cons.IH)
    with True entry show ?thesis by simp
  next
    case False
    from Cons.prems have "applyEnvEntries entries penv key = Some v" by (rule Cons.IH)
    with False entry show ?thesis by simp
  qed
qed

lemma applyEnvEntries_writes_absent:
  "applyEnvEntries entries penv key \<noteq> penv key \<Longrightarrow>
     penv key = None \<and> key \<in> fst ` set entries"
proof (induction entries arbitrary: penv)
  case Nil
  then show ?case by simp
next
  case (Cons entry entries)
  obtain k x where entry: "entry = (k, x)" by (cases entry)
  show ?case
  proof (cases "penv key")
    case (Some v)
    then have "applyEnvEntries (entry # entries) penv key = Some v"
      by (rule applyEnvEntries_kept)
    with Cons.prems Some show ?thesis by simp
  next
    case None
    show ?thesis
    proof (cases "k = key")
      case True
      with None entry show ?thesis by simp
    next
      case False
      let ?e = "if getProperty penv k = Undefined then penv(k \<mapsto> x) else penv"
      from False have same: "?e key = penv key" by simp
      from Cons.prems entry have "applyEnvEntries entries ?e key \<noteq> ?e key"
        unfolding same by simp
      then have "?e key = None \<and> key \<in> fst ` set entries" by (rule Cons.IH)
      with same entry show ?thesis by simp
    qed
  qed
qed

lemma applyZAiConfig_kept:
  "penv key = Some v \<Longrightarrow>
   (enabled z = Some True \<longrightarrow> key \<noteq> ascii ''Z_AI_ENABLED'' \<and>
      (model_mapping z \<noteq> None \<longrightarrow> key \<noteq> ascii ''Z_AI_MODEL_MAPPING_CONFIG'')) \<Longrightarrow>
   applyZAiConfig z penv key = Some v"
  by (auto simp: applyZAiConfig_def Let_def split: option.splits)

text \<open>
  The claim at the variable \<open>Z_AI_ENABLED\<close>: the \<open>env\<close> section lists it, it is set
  before the call, and the call changes its value.
\<close>

theorem C9_z_ai_overwrites_counterexample:
  "env zaiEnabledSettings = Some [(ascii ''Z_AI_ENABLED'', ascii ''false'')] \<and>
   zaiDisabledEnv (ascii ''Z_AI_ENABLED'') = Some (ascii ''0'') \<and>
   applyEnvironmentSettings zaiEnabledSettings zaiDisabledEnv (ascii ''Z_AI_ENABLED'') =
     Some (ascii ''true'') \<and>
   applyEnvironmentSettings zaiEnabledSettings zaiDisabledEnv (ascii ''Z_AI_ENABLED'') \<noteq>
     zaiDisabledEnv (ascii ''Z_AI_ENABLED'')"
  by (simp add: zaiEnabledSettings_def zaiDisabledEnv_def applyEnvironmentSettings_def
      applyZAiConfig_def getProperty_def ascii_def)

text \<open>
  C9, as the program has it: a variable that is set before the call keeps its value,
  whatever the \<open>env\<close> section says of it, unless it is one of the variables that an
  enabled \<open>z_ai\<close> section writes (\<open>Z_AI_ENABLED\<close>, and \<open>Z_AI_MODEL_MAPPING_CONFIG\<close> when
  there is a model mapping); and every variable whose value the call changes was absent
  before it or is one of those.
\<close>

theorem C9_set_variables_kept:
  "(penv key = Some v \<and> key \<notin> set (zAiWrites settings) \<longrightarrow>
      applyEnvironmentSettings settings penv key = Some v) \<and>
   (applyEnvironmentSettings settings penv key \<noteq> penv key \<longrightarrow>
      penv key = None \<or> key \<in> set (zAiWrites settings))"
proof -
  have kept: "applyEnvironmentSettings settings penv key = Some v"
    if "penv key = Some v" "key \<notin> set (zAiWrites settings)" for v
  proof -
    let ?e = "case env settings of Some entries \<Rightarrow> applyEnvEntries entries penv | None \<Rightarrow> penv"
    from that(1) have e: "?e key = Some v"
      by (simp add: applyEnvEntries_kept split: option.splits)
    show ?thesis
    proof (cases "z_ai settings")
      case None
      with e show ?thesis by (simp add: applyEnvironmentSettings_def)
    next
      case (Some z)
      with that(2) have "enabled z = Some True \<longrightarrow> key \<noteq> ascii ''Z_AI_ENABLED'' \<and>
          (model_mapping z \<noteq> None \<longrightarrow> key \<noteq> ascii ''Z_AI_MODEL_MAPPING_CONFIG'')"
        by (auto simp: zAiWrites_def split: if_splits)
      with e have "applyZAiConfig z ?e key = Some v" by (rule applyZAiConfig_kept)
      with Some show ?thesis by (simp add: applyEnvironmentSettings_def)
    qed
  qed
  then show ?thesis by (cases "penv key") auto
qed

theorem C9_set_variables_kept_witness:
  "ownBaseUrlEnv (ascii ''ANTHROPIC_BASE_URL'') = Some (ascii ''http://localhost:8080'') \<and>
   ascii ''ANTHROPIC_BASE_URL'' \<notin> set (zAiWrites savedSettings) \<and>
   applyEnvironmentSettings savedSettings ownBaseUrlEnv (ascii ''ANTHROPIC_BASE_URL'') =
     Some (ascii ''http://localhost:8080'') \<and>
   applyEnvironmentSettings savedSettings ownBaseUrlEnv (ascii ''API_TIMEOUT_MS'') \<noteq>
     ownBaseUrlEnv (ascii ''API_TIMEOUT_MS'') \<and>
   ownBaseUrlEnv (ascii ''API_TIMEOUT_MS'') = None"
proof -
  have set: "ownBaseUrlEnv (ascii ''ANTHROPIC_BASE_URL'') = Some (ascii ''http://localhost:8080'')"
    and unset: "ownBaseUrlEnv (ascii ''API_TIMEOUT_MS'') = None"
    by (simp_all add: ownBaseUrlEnv_def ascii_def)
  have other: "ascii ''ANTHROPIC_BASE_URL'' \<notin> set (zAiWrites savedSettings)"
    by (simp add: zAiWrites_def savedSettings_def ascii_def)
  have written: "applyEnvironmentSettings savedSettings ownBaseUrlEnv (ascii ''API_TIMEOUT_MS'') =
      Some (ascii ''3000000'')"
    by (simp add: savedSettings_def ownBaseUrlEnv_def applyEnvironmentSettings_def
        applyZAiConfig_def getProperty_def objectPrototypeMembers_def ascii_def)
  from C9_set_variables_kept [of ownBaseUrlEnv "ascii ''ANTHROPIC_BASE_URL''"
      "ascii ''http://localhost:8080''" savedSettings] set other written unset
  show ?thesis by simp
qed

section \<open>Properties of the sessions\<close>

subsection \<open>setSessionModel\<close>

lemma getProperty_own: "table key = Some v \<Longrightarrow> getProperty table key = Own v"
  by (simp add: getProperty_def)

lemma setSessionModel_without_query:
  "registry sessionId = Some session \<Longrightarrow> query session = None \<Longrightarrow>
     setSessionModel lower penv registry sessionId modelId = Inr registry"
  by (simp add: setSessionModel_def getProperty_own)

lemma setSessionModel_with_query:
  "registry sessionId = Some session \<Longrightarrow> query session = Some q \<Longrightarrow>
     setSessionModel lower penv registry sessionId modelId =
       Inr (registry(sessionId \<mapsto> session\<lparr>query := Some (q\<lparr>q_model := Some modelId,
         q_maxThinkingTokens :=
           (if isOpusModel lower modelId then Some (configuredThinkingTokens penv) else None)\<rparr>)\<rparr>))"
  by (simp add: setSessionModel_def getProperty_own Let_def)

text \<open>
  C5: on a session of the registry, a \<open>setSessionModel\<close> with a high-capability model
  followed by one with a model that is not both succeed, and leave the thinking budget of
  the session cleared; between the two calls a session with an engine handle has the
  configured budget. (The environment may change between the calls.)
\<close>

theorem C5_budget_cleared_after_downgrade:
  assumes "registry sessionId = Some session"
    and "isOpusModel lower highModel" and "\<not> isOpusModel lower otherModel"
  shows "\<exists>sessions1 sessions2.
           setSessionModel lower penv registry sessionId highModel = Inr sessions1 \<and>
           setSessionModel lower penv' sessions1 sessionId otherModel = Inr sessions2 \<and>
           (query session \<noteq> None \<longrightarrow>
              maxThinkingTokensOf sessions1 sessionId = Some (configuredThinkingTokens penv)) \<and>
           maxThinkingTokensOf sessions2 sessionId = None"
proof (cases "query session")
  case None
  with assms(1) show ?thesis
    by (simp add: setSessionModel_without_query maxThinkingTokensOf_def)
next
  case (Some q)
  let ?q1 = "q\<lparr>q_model := Some highModel,
      q_maxThinkingTokens := Some (configuredThinkingTokens penv)\<rparr>"
  let ?s1 = "session\<lparr>query := Some ?q1\<rparr>"
  let ?sessions1 = "registry(sessionId \<mapsto> ?s1)"
  have first: "setSessionModel lower penv registry sessionId highModel = Inr ?sessions1"
    using assms(1,2) Some by (simp add: setSessionModel_with_query)
  let ?sessions2 = "?sessions1(sessionId \<mapsto> ?s1\<lparr>query := Some (?q1\<lparr>q_model := Some otherModel,
        q_maxThinkingTokens := None\<rparr>)\<rparr>)"
  have "?sessions1 sessionId = Some ?s1" and "query ?s1 = Some ?q1" by simp_all
  then have second: "setSessionModel lower penv' ?sessions1 sessionId otherModel = Inr ?sessions2"
    using assms(3) by (simp add: setSessionModel_with_query)
  have "maxThinkingTokensOf ?sessions1 sessionId = Some (configuredThinkingTokens penv)"
    and "maxThinkingTokensOf ?sessions2 sessionId = None"
    by (simp_all add: maxThinkingTokensOf_def)
  with first second show ?thesis by blast
qed

lemma isOpusModel_samples:
  "isOpusModel toLowerCaseAscii (ascii ''GLM-4.7'')"
  "\<not> isOpusModel toLowerCaseAscii (ascii ''glm-4.5-air'')"
  by (simp_all add: isOpusModel_def toLowerCaseAscii_def ascii_def)

theorem C5_budget_cleared_after_downgrade_witness:
  "[sampleSessionId \<mapsto> sampleSession default_mode] sampleSessionId =
     Some (sampleSession default_mode) \<and>
   isOpusModel toLowerCaseAscii (ascii ''GLM-4.7'') \<and>
   \<not> isOpusModel toLowerCaseAscii (ascii ''glm-4.5-air'') \<and>
   query (sampleSession default_mode) \<noteq> None \<and>
   (\<exists>sessions1 sessions2.
      setSessionModel toLowerCaseAscii Map.empty [sampleSessionId \<mapsto> sampleSession default_mode]
        sampleSessionId (ascii ''GLM-4.7'') = Inr sessions1 \<and>
      setSessionModel toLowerCaseAscii Map.empty sessions1 sampleSessionId (ascii ''glm-4.5-air'')
        = Inr sessions2 \<and>
      maxThinkingTokensOf sessions1 sampleSessionId = Some (Tokens 15000) \<and>
      maxThinkingTokensOf sessions2 sampleSessionId = None)"
  using C5_budget_cleared_after_downgrade
    [of "[sampleSessionId \<mapsto> sampleSession default_mode]" sampleSessionId
        "sampleSession default_mode" toLowerCaseAscii "ascii ''GLM-4.7''"
        "ascii ''glm-4.5-air''" Map.empty Map.empty]
  by (simp add: isOpusModel_samples sampleSession_def configuredThinkingTokens_def)

subsection \<open>canUseTool\<close>

text \<open>
  C4: for a session of the registry and a tool other than \<open>ExitPlanMode\<close>, the run of
  \<open>canUseTool\<close> is as follows. In mode \<open>bypassPermissions\<close>, and in mode \<open>acceptEdits\<close>
  for a tool of \<open>EDIT_TOOL_NAMES\<close>, the result is \<open>allow\<close> and no request goes to the
  host. In every other case exactly one request goes to the host; unless the host selects
  \<open>allow\<close> or \<open>allow_always\<close>, the result is \<open>deny\<close> with the interrupt flag set.
\<close>

theorem C4_ordinary_tool_permission:
  fixes toolTitle sessionId toolName toolInput toolUseID
  assumes "registry sessionId = Some session" and "toolName \<noteq> ascii ''ExitPlanMode''"
  defines "request \<equiv>
     permissionRequest toolPermissionOptions toolTitle sessionId toolName toolInput toolUseID"
  shows "\<exists>run. canUseTool EDIT_TOOL_NAMES toolTitle requestPermission registry sessionId
                 toolName toolInput suggestions toolUseID = Some run \<and>
           (if permissionMode session = bypassPermissions \<or>
               (permissionMode session = acceptEdits \<and> toolName \<in> set EDIT_TOOL_NAMES)
            then (\<exists>permissions. result run = allow toolInput permissions) \<and> requested run = []
            else requested run = [request] \<and>
                 (if requestPermission request = Some (selected (ascii ''allow'')) \<or>
                     requestPermission request = Some (selected (ascii ''allow_always''))
                  then \<exists>permissions. result run = allow toolInput permissions
                  else result run = deny (ascii ''User refused permission to run tool'') True))"
proof -
  from assms(1) have own: "getProperty registry sessionId = Own session"
    by (simp add: getProperty_def)
  show ?thesis
  proof (cases "permissionMode session = bypassPermissions \<or>
      (permissionMode session = acceptEdits \<and> toolName \<in> set EDIT_TOOL_NAMES)")
    case True
    with own assms(2) show ?thesis by (simp add: canUseTool_def)
  next
    case False
    show ?thesis
    proof (cases "requestPermission request")
      case None
      with False own assms(2) show ?thesis
        by (simp add: canUseTool_def Let_def request_def)
    next
      case (Some outcome)
      show ?thesis
      proof (cases outcome)
        case cancelled_outcome
        with Some False own assms(2) show ?thesis
          by (simp add: canUseTool_def Let_def request_def)
      next
        case (selected optionId)
        have distinct: "ascii ''allow'' \<noteq> ascii ''allow_always''" by (simp add: ascii_def)
        consider "optionId = ascii ''allow''" | "optionId = ascii ''allow_always''"
          | "optionId \<noteq> ascii ''allow''" "optionId \<noteq> ascii ''allow_always''" by blast
        then show ?thesis
        proof cases
          case 1
          with selected Some False own assms(2) distinct show ?thesis
            by (simp add: canUseTool_def Let_def request_def)
        next
          case 2
          with selected Some False own assms(2) distinct show ?thesis
            by (simp add: canUseTool_def Let_def request_def)
        next
          case 3
          with selected Some False own assms(2) show ?thesis
            by (simp add: canUseTool_def Let_def request_def)
        qed
      qed
    qed
  qed
qed

text \<open>
  In mode \<open>acceptEdits\<close> an edit tool is allowed without a request, and another tool is
  asked for; the host rejects, and the result is \<open>deny\<close> with the interrupt flag.
\<close>

theorem C4_ordinary_tool_permission_witness:
  "[sampleSessionId \<mapsto> sampleSession acceptEdits] sampleSessionId =
     Some (sampleSession acceptEdits) \<and>
   ascii ''mcp__acp__Edit'' \<noteq> ascii ''ExitPlanMode'' \<and>
   ascii ''mcp__acp__Bash'' \<noteq> ascii ''ExitPlanMode'' \<and>
   permissionMode (sampleSession acceptEdits) = acceptEdits \<and>
   ascii ''mcp__acp__Edit'' \<in> set sampleEditTools \<and>
   ascii ''mcp__acp__Bash'' \<notin> set sampleEditTools \<and>
   (\<exists>run. canUseTool sampleEditTools sampleTitle hostRejects
            [sampleSessionId \<mapsto> sampleSession acceptEdits] sampleSessionId
            (ascii ''mcp__acp__Edit'') (JObject []) None (ascii ''toolu_01'') = Some run \<and>
          (\<exists>permissions. result run = allow (JObject []) permissions) \<and> requested run = []) \<and>
   (\<exists>run. canUseTool sampleEditTools sampleTitle hostRejects
            [sampleSessionId \<mapsto> sampleSession acceptEdits] sampleSessionId
            (ascii ''mcp__acp__Bash'') (JObject []) None (ascii ''toolu_02'') = Some run \<and>
          requested run =
            [permissionRequest toolPermissionOptions sampleTitle sampleSessionId
               (ascii ''mcp__acp__Bash'') (JObject []) (ascii ''toolu_02'')] \<and>
          result run = deny (ascii ''User refused permission to run tool'') True)"
proof -
  have registry: "[sampleSessionId \<mapsto> sampleSession acceptEdits] sampleSessionId =
      Some (sampleSession acceptEdits)" by simp
  have names: "ascii ''mcp__acp__Edit'' \<noteq> ascii ''ExitPlanMode''"
      "ascii ''mcp__acp__Bash'' \<noteq> ascii ''ExitPlanMode''"
      "ascii ''mcp__acp__Edit'' \<in> set sampleEditTools"
      "ascii ''mcp__acp__Bash'' \<notin> set sampleEditTools"
    by (simp_all add: sampleEditTools_def ascii_def)
  have mode: "permissionMode (sampleSession acceptEdits) = acceptEdits"
    by (simp add: sampleSession_def)
  have rejected: "hostRejects request \<noteq> Some (selected (ascii ''allow''))"
      "hostRejects request \<noteq> Some (selected (ascii ''allow_always''))" for request
    by (simp_all add: hostRejects_def ascii_def)
  from C4_ordinary_tool_permission
      [of "[sampleSessionId \<mapsto> sampleSession acceptEdits]" sampleSessionId
          "sampleSession acceptEdits" "ascii ''mcp__acp__Edit''" sampleEditTools sampleTitle
          hostRejects "JObject []" None "ascii ''toolu_01''"] registry mode names(1,3)
  have edit: "\<exists>run. canUseTool sampleEditTools sampleTitle hostRejects
            [sampleSessionId \<mapsto> sampleSession acceptEdits] sampleSessionId
            (ascii ''mcp__acp__Edit'') (JObject []) None (ascii ''toolu_01'') = Some run \<and>
          (\<exists>permissions. result run = allow (JObject []) permissions) \<and> requested run = []"
    by simp
  from C4_ordinary_tool_permission
      [of "[sampleSessionId \<mapsto> sampleSession acceptEdits]" sampleSessionId
          "sampleSession acceptEdits" "ascii ''mcp__acp__Bash''" sampleEditTools sampleTitle
          hostRejects "JObject []" None "ascii ''toolu_02''"] registry mode names(2,4) rejected
  have other: "\<exists>run. canUseTool sampleEditTools sampleTitle hostRejects
            [sampleSessionId \<mapsto> sampleSession acceptEdits] sampleSessionId
            (ascii ''mcp__acp__Bash'') (JObject []) None (ascii ''toolu_02'') = Some run \<and>
          requested run =
            [permissionRequest toolPermissionOptions sampleTitle sampleSessionId
               (ascii ''mcp__acp__Bash'') (JObject []) (ascii ''toolu_02'')] \<and>
          result run = deny (ascii ''User refused permission to run tool'') True"
    by simp
  from registry names mode edit other show ?thesis by blast
qed

subsection \<open>newSession\<close>

lemma trim_empty_iff: "trim s = [] \<longleftrightarrow> (\<forall>c\<in>set s. isWhiteSpace c)"
proof
  assume "trim s = []"
  then have all: "\<forall>c\<in>set (dropWhile isWhiteSpace s). isWhiteSpace c"
    by (simp add: trim_def)
  have "dropWhile isWhiteSpace s = []"
  proof (rule ccontr)
    assume ne: "dropWhile isWhiteSpace s \<noteq> []"
    then have "\<not> isWhiteSpace (hd (dropWhile isWhiteSpace s))" by (rule hd_dropWhile)
    moreover from ne have "hd (dropWhile isWhiteSpace s) \<in> set (dropWhile isWhiteSpace s)"
      by (rule hd_in_set)
    ultimately show False using all by blast
  qed
  then show "\<forall>c\<in>set s. isWhiteSpace c" by simp
next
  assume all: "\<forall>c\<in>set s. isWhiteSpace c"
  have "set (dropWhile isWhiteSpace s) \<subseteq> set s" by (rule set_dropWhileD [THEN subsetI])
  with all show "trim s = []" by (auto simp: trim_def)
qed

text \<open>
  C1: when no credential is configured (\<open>ANTHROPIC_AUTH_TOKEN\<close> is missing, or is made
  of white space alone, the empty text included, or the backup of \<open>.claude.json\<close> exists
  and the file itself does not), \<open>newSession\<close> throws \<open>authRequired\<close>, which is no
  other error, and leaves the registry of sessions as it was.
\<close>

theorem C1_no_credential_auth_required:
  assumes "processEnv m (ascii ''ANTHROPIC_AUTH_TOKEN'') = None \<or>
     (\<exists>token. processEnv m (ascii ''ANTHROPIC_AUTH_TOKEN'') = Some token \<and>
        (\<forall>c\<in>set token. isWhiteSpace c)) \<or>
     (existsSync m (pathResolve m (homedir m) (ascii ''.claude.json.backup'')) \<and>
      \<not> existsSync m (pathResolve m (homedir m) (ascii ''.claude.json'')))"
  shows "fst (newSession lower m engine agent params) = Inl authRequired \<and>
         sessions (snd (newSession lower m engine agent params)) = sessions agent"
proof -
  from assms have "authIsRequired m"
    by (auto simp: authIsRequired_def trim_empty_iff split: option.splits)
  then show ?thesis by (simp add: newSession_def Let_def)
qed

theorem C1_no_credential_auth_required_witness:
  "processEnv blankTokenMachine (ascii ''ANTHROPIC_AUTH_TOKEN'') = Some [32, 9] \<and>
   isWhiteSpace 32 \<and> isWhiteSpace 9 \<and>
   fst (newSession toLowerCaseAscii blankTokenMachine sampleEngine sampleAgent sampleRequest) =
     Inl authRequired \<and>
   sessions (snd (newSession toLowerCaseAscii blankTokenMachine sampleEngine sampleAgent
     sampleRequest)) = sessions sampleAgent"
proof -
  have token: "processEnv blankTokenMachine (ascii ''ANTHROPIC_AUTH_TOKEN'') = Some [32, 9]"
    by (simp add: blankTokenMachine_def sampleMachine_def)
  have blank: "\<forall>c\<in>set [32, 9]. isWhiteSpace c" by (simp add: isWhiteSpace_def)
  from token blank have "processEnv blankTokenMachine (ascii ''ANTHROPIC_AUTH_TOKEN'') = None \<or>
     (\<exists>token. processEnv blankTokenMachine (ascii ''ANTHROPIC_AUTH_TOKEN'') = Some token \<and>
        (\<forall>c\<in>set token. isWhiteSpace c)) \<or>
     (existsSync blankTokenMachine
        (pathResolve blankTokenMachine (homedir blankTokenMachine) (ascii ''.claude.json.backup'')) \<and>
      \<not> existsSync blankTokenMachine
        (pathResolve blankTokenMachine (homedir blankTokenMachine) (ascii ''.claude.json'')))"
    by blast
  from C1_no_credential_auth_required [OF this] token blank show ?thesis by simp
qed

text \<open>With a token in the environment the same request opens a session.\<close>

lemma newSession_with_token:
  "\<exists>response. fst (newSession toLowerCaseAscii tokenMachine sampleEngine sampleAgent sampleRequest)
       = Inr response \<and>
     r_sessionId response = sampleSessionId \<and>
     maxThinkingTokensOf
       (sessions (snd (newSession toLowerCaseAscii tokenMachine sampleEngine sampleAgent
          sampleRequest))) sampleSessionId = Some (Tokens 15000)"
  by (simp add: newSession_def authIsRequired_def tokenMachine_def sampleMachine_def
      sampleEngine_def sampleAgent_def sampleRequest_def sampleQuery_def sampleSessionId_def
      getAvailableModels_def isOpusModel_def toLowerCaseAscii_def configuredThinkingTokens_def
      maxThinkingTokensOf_def trim_def isWhiteSpace_def Let_def ascii_def)

section \<open>Properties of the event translation\<close>

lemma cacheGet_fresh:
  "c_entries cache key = None \<Longrightarrow> c_prototype cache = None \<Longrightarrow>
     cacheGet cache key = Some (getProperty (c_entries cache) key)"
  by (simp add: cacheGet_def)

lemma cacheGet_cacheSet:
  "key \<noteq> ascii ''__proto__'' \<Longrightarrow> cacheGet (cacheSet cache key chunk) key = Some (Own chunk)"
  by (simp add: cacheGet_def cacheSet_def)

text \<open>
  A tool result whose identifier the read of the cache does not find is logged and
  dropped, and the loop goes on with the chunks behind it.
\<close>

lemma translateChunk_untracked:
  assumes "cacheGet (t_cache st) (tr_tool_use_id toolResult) = Some Undefined"
  shows "translateChunk tools role files st (tool_result_chunk toolResult) =
         Emitted None
           (st\<lparr>t_logged := t_logged st @ [untrackedToolResult (tr_tool_use_id toolResult)]\<rparr>)"
  using assms by (simp add: translateChunk_def Let_def)

lemma untracked_tool_result_dropped:
  assumes "cacheGet (t_cache st) (tr_tool_use_id toolResult) = Some Undefined"
  shows "translateChunks tools role sessionId files (tool_result_chunk toolResult # rest) output st =
         translateChunks tools role sessionId files rest output
           (st\<lparr>t_logged := t_logged st @ [untrackedToolResult (tr_tool_use_id toolResult)]\<rparr>)"
  by (simp add: translateChunk_untracked [OF assms])

lemma untracked_tool_result_alone:
  assumes "c_entries (t_cache st) (tr_tool_use_id toolResult) = None"
    and "c_prototype (t_cache st) = None"
    and "tr_tool_use_id toolResult \<notin> set objectPrototypeMembers"
  shows "toAcpNotifications tools (block_content [tool_result_chunk toolResult]) role sessionId st
           files =
         (Returned [],
          st\<lparr>t_logged := t_logged st @ [untrackedToolResult (tr_tool_use_id toolResult)]\<rparr>)"
proof -
  from assms have "cacheGet (t_cache st) (tr_tool_use_id toolResult) = Some Undefined"
    by (simp add: cacheGet_fresh getProperty_def)
  then show ?thesis
    by (simp add: toAcpNotifications_def translateChunk_untracked)
qed

text \<open>
  C2 at the identifier \<open>constructor\<close>: the cache is empty, so the identifier has no
  entry in it, and yet the translation of the tool result logs nothing and returns a
  \<open>tool_call_update\<close> for that identifier, under the tool name \<open>Object\<close>. The read
  \<open>toolUseCache[chunk.tool_use_id]\<close> finds the constructor that the cache inherits.
\<close>

theorem C2_inherited_identifier_emits_update:
  "c_entries (t_cache freshTranslation) (ascii ''constructor'') = None \<and>
   toAcpNotifications tools
     (block_content [tool_result_chunk
        \<lparr> tr_type = tool_result, tr_tool_use_id = ascii ''constructor'',
          tr_is_error = False, tr_content = content \<rparr>])
     role sessionId freshTranslation files =
   (Returned
      [\<lparr> n_sessionId = sessionId,
         n_update = tool_call_update (Some (ascii ''Object'')) (ascii ''constructor'') completed
           (toolUpdateFromToolResult tools
              \<lparr> tr_type = tool_result, tr_tool_use_id = ascii ''constructor'',
                tr_is_error = False, tr_content = content \<rparr>
              (Inherited (ascii ''constructor''))) \<rparr>],
    freshTranslation)"
  by (simp add: toAcpNotifications_def translateChunk_def freshTranslation_def emptyCache_def
      cacheGet_def getProperty_def objectPrototypeMembers_def inheritedMemberName_def Let_def
      ascii_def)

text \<open>
  The claim at the chunk \<open>todoWriteChunk\<close>, a \<open>TodoWrite\<close> invocation with a list of
  todos, translated with an empty cache: a plan is returned, and the cache then holds the
  invocation under its identifier.
\<close>

theorem C3_todo_write_cached_counterexample:
  "tu_name todoWriteChunk = ascii ''TodoWrite'' \<and>
   fst (toAcpNotifications sampleTools (block_content [tool_use_chunk todoWriteChunk]) assistant
          sampleSessionId freshTranslation Map.empty) =
     Returned [\<lparr> n_sessionId = sampleSessionId,
                 n_update = plan_update (JArray [JString (ascii ''write the tests'')]) \<rparr>] \<and>
   c_entries (t_cache (snd (toAcpNotifications sampleTools
       (block_content [tool_use_chunk todoWriteChunk]) assistant sampleSessionId freshTranslation
       Map.empty))) (ascii ''toolu_01'') = Some todoWriteChunk \<and>
   cacheGet (t_cache (snd (toAcpNotifications sampleTools
       (block_content [tool_use_chunk todoWriteChunk]) assistant sampleSessionId freshTranslation
       Map.empty))) (tu_id todoWriteChunk) = Some (Own todoWriteChunk)"
  by (simp add: toAcpNotifications_def translateChunk_def freshTranslation_def emptyCache_def
      todoWriteChunk_def sampleTools_def inputTodosIsArray_def cacheSet_def cacheGet_def
      Let_def ascii_def)

text \<open>
  C3, as the program has it: for a tool invocation named \<open>TodoWrite\<close> whose input can be
  read for its todos, the translation returns one plan notification made from the input
  when the todos are a list, and nothing when they are not; in neither case a
  \<open>tool_call\<close>, and no hook callback is registered. The invocation is written to the
  cache by the same assignment as every tool invocation, and a read under its identifier
  finds it there (the identifier \<open>__proto__\<close> apart).
\<close>

theorem C3_todo_write_plan:
  assumes "tu_name toolUse = ascii ''TodoWrite''"
    and "inputTodosIsArray (tu_input toolUse) = Some isArray"
  shows "toAcpNotifications tools (block_content [tool_use_chunk toolUse]) role sessionId st files =
           (Returned (if isArray
                      then [\<lparr> n_sessionId = sessionId,
                              n_update = plan_update (planEntries tools (tu_input toolUse)) \<rparr>]
                      else []),
            st\<lparr>t_cache := cacheSet (t_cache st) (tu_id toolUse) toolUse\<rparr>) \<and>
         (tu_id toolUse \<noteq> ascii ''__proto__'' \<longrightarrow>
            cacheGet (cacheSet (t_cache st) (tu_id toolUse) toolUse) (tu_id toolUse) =
              Some (Own toolUse))"
  using assms
  by (cases isArray)
    (simp_all add: toAcpNotifications_def translateChunk_def Let_def cacheGet_cacheSet)

theorem C3_todo_write_plan_witness:
  "tu_name todoWriteChunk = ascii ''TodoWrite'' \<and>
   inputTodosIsArray (tu_input todoWriteChunk) = Some True \<and>
   tu_id todoWriteChunk \<noteq> ascii ''__proto__'' \<and>
   toAcpNotifications sampleTools (block_content [tool_use_chunk todoWriteChunk]) assistant
       sampleSessionId freshTranslation Map.empty =
     (Returned [\<lparr> n_sessionId = sampleSessionId,
                 n_update = plan_update (planEntries sampleTools (tu_input todoWriteChunk)) \<rparr>],
      freshTranslation\<lparr>t_cache :=
        cacheSet (t_cache freshTranslation) (tu_id todoWriteChunk) todoWriteChunk\<rparr>) \<and>
   cacheGet (cacheSet (t_cache freshTranslation) (tu_id todoWriteChunk) todoWriteChunk)
       (tu_id todoWriteChunk) = Some (Own todoWriteChunk)"
proof -
  have name: "tu_name todoWriteChunk = ascii ''TodoWrite''"
    and todos: "inputTodosIsArray (tu_input todoWriteChunk) = Some True"
    and ident: "tu_id todoWriteChunk \<noteq> ascii ''__proto__''"
    by (simp_all add: todoWriteChunk_def inputTodosIsArray_def ascii_def)
  from C3_todo_write_plan [OF name todos, of sampleTools assistant sampleSessionId
      freshTranslation Map.empty] name todos ident
  show ?thesis by simp
qed

text \<open>
  The result of a \<open>TodoWrite\<close> invocation is recognised in the cache and left out: no
  notification, and no line in the log.
\<close>

lemma todo_write_result_suppressed:
  assumes "c_entries (t_cache st) (tr_tool_use_id toolResult) = Some toolUse"
    and "tu_name toolUse = ascii ''TodoWrite''"
  shows "toAcpNotifications tools (block_content [tool_result_chunk toolResult]) role sessionId st
           files = (Returned [], st)"
  using assms by (simp add: toAcpNotifications_def translateChunk_def cacheGet_def Let_def)

text \<open>An invocation of any other tool is announced by a \<open>tool_call\<close>.\<close>

lemma ordinary_tool_use_announced:
  assumes "tu_name toolUse \<noteq> ascii ''TodoWrite''"
  shows "toAcpNotifications tools (block_content [tool_use_chunk toolUse]) role sessionId st files =
           (Returned [\<lparr> n_sessionId = sessionId,
                        n_update = tool_call (tu_name toolUse) (tu_id toolUse)
                          (Some (tu_input toolUse)) pending
                          (toolInfoFromToolUse tools toolUse files) \<rparr>],
            st\<lparr>t_cache := cacheSet (t_cache st) (tu_id toolUse) toolUse,
               t_hooks := t_hooks st @ [tu_id toolUse]\<rparr>)"
  using assms by (simp add: toAcpNotifications_def translateChunk_def Let_def)

text \<open>
  A \<open>TodoWrite\<close> invocation whose input is \<open>null\<close>: the read of its todos throws, after
  the invocation has been written to the cache.
\<close>

lemma todo_write_null_input_throws:
  assumes "tu_name toolUse = ascii ''TodoWrite''" and "tu_input toolUse = JNull"
  shows "toAcpNotifications tools (block_content (tool_use_chunk toolUse # rest)) role sessionId st
           files =
           (Threw TypeError, st\<lparr>t_cache := cacheSet (t_cache st) (tu_id toolUse) toolUse\<rparr>)"
  using assms
  by (simp add: toAcpNotifications_def translateChunk_def inputTodosIsArray_def Let_def)

end
